theory Spec2Isabelle
  imports Complex_Main
begin

section \<open>JavaScript strings\<close>

text \<open>
  A JavaScript string is modelled as a \<^typ>\<open>string\<close>, one \<^typ>\<open>char\<close> per code unit, so
  the model covers texts over the code units 0 to 255 (Latin-1).  Numbers that count
  (line numbers, indents, iteration counters) are \<^typ>\<open>int\<close> or \<^typ>\<open>nat\<close>;
  confidences are \<^typ>\<open>real\<close>.
\<close>

definition NL :: char where
  "NL = CHR 0x0A"

text \<open>The class \<open>\s\<close> of a JavaScript regular expression, which is also what
  \<open>trim\<close> removes: tab, line feed, vertical tab, form feed, carriage return, space and
  the no-break space (the members with a code unit below 256).\<close>

definition isWs :: "char \<Rightarrow> bool" where
  "isWs c = (c = CHR 0x09 \<or> c = CHR 0x0A \<or> c = CHR 0x0B \<or> c = CHR 0x0C \<or> c = CHR 0x0D
     \<or> c = CHR 0x20 \<or> c = CHR 0xA0)"

text \<open>\<open>s.split(sep)\<close> for a one-character separator: never the empty list.\<close>

fun splitOn :: "char \<Rightarrow> string \<Rightarrow> string list" where
  "splitOn sep [] = [[]]"
| "splitOn sep (c # cs) =
     (if c = sep then [] # splitOn sep cs
      else (case splitOn sep cs of
              l # ls \<Rightarrow> (c # l) # ls
            | [] \<Rightarrow> [[c]]))"

text \<open>\<open>xs.join(sep)\<close>.\<close>

fun joinWith :: "string \<Rightarrow> string list \<Rightarrow> string" where
  "joinWith sep [] = []"
| "joinWith sep [l] = l"
| "joinWith sep (l # m # ls) = l @ sep @ joinWith sep (m # ls)"

definition splitLines :: "string \<Rightarrow> string list" where
  "splitLines s = splitOn NL s"

definition joinLines :: "string list \<Rightarrow> string" where
  "joinLines ls = joinWith [NL] ls"

definition trimStart :: "string \<Rightarrow> string" where
  "trimStart s = dropWhile isWs s"

definition trimEnd :: "string \<Rightarrow> string" where
  "trimEnd s = rev (dropWhile isWs (rev s))"

definition trim :: "string \<Rightarrow> string" where
  "trim s = trimEnd (trimStart s)"

definition startsWith :: "string \<Rightarrow> string \<Rightarrow> bool" where
  "startsWith s p = (take (length p) s = p)"

definition endsWith :: "string \<Rightarrow> string \<Rightarrow> bool" where
  "endsWith s p = (length p \<le> length s \<and> drop (length s - length p) s = p)"

text \<open>\<open>s.indexOf(p)\<close>: the first position at which \<open>p\<close> starts, \<open>None\<close> for -1.\<close>

fun indexOfFrom :: "nat \<Rightarrow> string \<Rightarrow> string \<Rightarrow> nat option" where
  "indexOfFrom i [] p = (if p = [] then Some i else None)"
| "indexOfFrom i (c # cs) p =
     (if startsWith (c # cs) p then Some i else indexOfFrom (Suc i) cs p)"

definition indexOf :: "string \<Rightarrow> string \<Rightarrow> nat option" where
  "indexOf s p = indexOfFrom 0 s p"

definition includesStr :: "string \<Rightarrow> string \<Rightarrow> bool" where
  "includesStr s p = (indexOf s p \<noteq> None)"

text \<open>\<open>' '.repeat(n)\<close> for a count that is not negative.\<close>

definition spaces :: "nat \<Rightarrow> string" where
  "spaces n = replicate n (CHR '' '')"

text \<open>The length of the match of \<open>/^(\s*)/\<close>: the leading run of white space.\<close>

definition getIndent :: "string \<Rightarrow> nat" where
  "getIndent line = length (takeWhile isWs line)"

section \<open>Fix suggestions and the confidence scorer\<close>

datatype LineSeverity = critical | error | warning | info

datatype FixType =
  missing_colon | missing_space | indentation | duplicate_key | type_coercion
  | field_relocation | list_restructure | orphaned_value | field_normalization
  | quote_balance | bracket_balance

record FixSuggestion =
  lineNumber :: int
  fixType :: FixType
  original :: string
  fixed :: string
  reason :: string
  confidence :: real
  severity :: LineSeverity
  hasStandardPattern :: bool

text \<open>The table \<open>weights\<close> of \<open>calculateOverallConfidence\<close>.\<close>

fun weights :: "LineSeverity \<Rightarrow> real" where
  "weights critical = 1.5"
| "weights error = 1.0"
| "weights warning = 0.7"
| "weights info = 0.5"

text \<open>The loop of \<open>calculateOverallConfidence\<close> over the fixes; the accumulator is
  \<open>(totalWeightedConfidence, totalWeight)\<close>.\<close>

fun overallLoop :: "FixSuggestion list \<Rightarrow> real \<times> real \<Rightarrow> real \<times> real" where
  "overallLoop [] acc = acc"
| "overallLoop (f # fs) (totalWeightedConfidence, totalWeight) =
     overallLoop fs
       (totalWeightedConfidence + confidence f * weights (severity f),
        totalWeight + weights (severity f))"

definition calculateOverallConfidence :: "FixSuggestion list \<Rightarrow> real" where
  "calculateOverallConfidence fixes =
     (if length fixes = 0 then 1.0
      else (case overallLoop fixes (0, 0) of
              (totalWeightedConfidence, totalWeight) \<Rightarrow>
                if totalWeight > 0 then totalWeightedConfidence / totalWeight else 1.0))"

definition filterByConfidence :: "FixSuggestion list \<Rightarrow> real \<Rightarrow> FixSuggestion list" where
  "filterByConfidence fixes threshold = filter (\<lambda>f. confidence f \<ge> threshold) fixes"

section \<open>The indentation-style detector\<close>

text \<open>\<open>IndentationValidator.detectIndentationStyle\<close>.  The loop keeps
  \<open>(counts[2], counts[4])\<close>; \<open>line.match(/^(\s+)/)\<close> fails exactly when the line does not
  start with white space, and then the line is skipped.\<close>

fun detectLoop :: "string list \<Rightarrow> nat \<times> nat \<Rightarrow> nat \<times> nat" where
  "detectLoop [] counts = counts"
| "detectLoop (line # rest) (counts2, counts4) =
     (if takeWhile isWs line = [] then detectLoop rest (counts2, counts4)
      else (let spaces = length (takeWhile isWs line) in
            if spaces > 0 then
              detectLoop rest
                (if spaces mod 2 = 0 then counts2 + 1 else counts2,
                 if spaces mod 4 = 0 then counts4 + 1 else counts4)
            else detectLoop rest (counts2, counts4)))"

definition detectIndentationStyle :: "string \<Rightarrow> nat" where
  "detectIndentationStyle content =
     (case detectLoop (splitLines content) (0, 0) of
        (counts2, counts4) \<Rightarrow> if counts4 > counts2 then 4 else 2)"

section \<open>Applying a batch of fixes\<close>

text \<open>\<open>IntelligentYAMLFixer.applyFixes\<close>: the fixes are sorted by descending line number
  (JavaScript's sort is stable, as \<^const>\<open>sort_key\<close> is) and each one whose line number
  is in range overwrites its line.\<close>

fun applyLoop :: "string list \<Rightarrow> FixSuggestion list \<Rightarrow> string list" where
  "applyLoop lines [] = lines"
| "applyLoop lines (f # fs) =
     applyLoop
       (if lineNumber f > 0 \<and> lineNumber f \<le> int (length lines)
        then lines[nat (lineNumber f - 1) := fixed f] else lines)
       fs"

definition sortDescending :: "FixSuggestion list \<Rightarrow> FixSuggestion list" where
  "sortDescending fixes = sort_key (\<lambda>f. - lineNumber f) fixes"

definition applyFixes :: "string \<Rightarrow> FixSuggestion list \<Rightarrow> string" where
  "applyFixes yamlContent fixes =
     joinLines (applyLoop (splitLines yamlContent) (sortDescending fixes))"

section \<open>Character classes and substrings\<close>

text \<open>The code unit of a character.\<close>

definition code :: "char \<Rightarrow> int" where
  "code c = of_char c"

definition isLower :: "char \<Rightarrow> bool" where
  "isLower c = (97 \<le> code c \<and> code c \<le> 122)"

definition isUpper :: "char \<Rightarrow> bool" where
  "isUpper c = (65 \<le> code c \<and> code c \<le> 90)"

definition isDigit :: "char \<Rightarrow> bool" where
  "isDigit c = (48 \<le> code c \<and> code c \<le> 57)"

definition isAlpha :: "char \<Rightarrow> bool" where
  "isAlpha c = (isLower c \<or> isUpper c)"

definition isAlnum :: "char \<Rightarrow> bool" where
  "isAlnum c = (isAlpha c \<or> isDigit c)"

text \<open>The class \<open>[a-zA-Z0-9_-]\<close>.\<close>

definition isKeyChar :: "char \<Rightarrow> bool" where
  "isKeyChar c = (isAlnum c \<or> c = CHR ''_'' \<or> c = CHR ''-'')"

text \<open>\<open>s.substring(i)\<close> and \<open>s.substring(i, j)\<close> for \<open>i \<le> j\<close>.\<close>

definition substringFrom :: "string \<Rightarrow> nat \<Rightarrow> string" where
  "substringFrom s i = drop i s"

definition substring :: "string \<Rightarrow> nat \<Rightarrow> nat \<Rightarrow> string" where
  "substring s i j = take (j - i) (drop i s)"

text \<open>A string in a condition: true unless it is empty; an absent one is false.\<close>

definition truthy :: "string option \<Rightarrow> bool" where
  "truthy v = (case v of None \<Rightarrow> False | Some s \<Rightarrow> s \<noteq> [])"

section \<open>The semantic line model\<close>

datatype LineType =
  key_value | key_only | value_only | list_item | comment | blank | separator
  | block_scalar | unknown

text \<open>The parent and the children of a line are kept as line numbers (the source links
  the line objects themselves; a line number names exactly one of them).\<close>

record SemanticLine =
  sl_lineNumber :: nat
  sl_content :: string
  sl_indent :: nat
  sl_type :: LineType
  sl_key :: "string option"
  sl_value :: "string option"
  sl_isListItem :: bool
  sl_hasColon :: bool
  sl_parent :: "nat option"
  sl_children :: "nat list"

datatype LevelType = LObject | LArray

record IndentLevel =
  il_indent :: nat
  il_key :: string
  il_type :: LevelType
  il_lineNumber :: nat

section \<open>The indentation tracker\<close>

text \<open>The stack of \<open>IndentationTracker\<close> is a list whose head is the top of the stack
  (the last element of the source's array).\<close>

record IndentationTracker =
  indentStack :: "IndentLevel list"
  currentIndent :: nat

definition newTracker :: IndentationTracker where
  "newTracker = \<lparr>indentStack = [], currentIndent = 0\<rparr>"

definition resetTracker :: "IndentationTracker \<Rightarrow> IndentationTracker" where
  "resetTracker t = t\<lparr>indentStack := [], currentIndent := 0\<rparr>"

text \<open>The loop \<open>while (stack.length > 0 && indent <= top.indent) stack.pop()\<close>.\<close>

fun popFrames :: "nat \<Rightarrow> IndentLevel list \<Rightarrow> IndentLevel list" where
  "popFrames indent [] = []"
| "popFrames indent (frame # rest) =
     (if indent \<le> il_indent frame then popFrames indent rest else frame # rest)"

definition processLine :: "nat \<Rightarrow> string \<Rightarrow> nat \<Rightarrow> IndentationTracker \<Rightarrow> IndentationTracker" where
  "processLine lineNo content indent t =
     (if trim content = ''---'' then resetTracker t
      else t\<lparr>currentIndent := indent, indentStack := popFrames indent (indentStack t)\<rparr>)"

definition push :: "nat \<Rightarrow> string \<Rightarrow> LevelType \<Rightarrow> nat \<Rightarrow> IndentationTracker \<Rightarrow> IndentationTracker" where
  "push indent key ty lineNo t =
     t\<lparr>indentStack := \<lparr>il_indent = indent, il_key = key, il_type = ty, il_lineNumber = lineNo\<rparr>
          # indentStack t\<rparr>"

text \<open>\<open>getCurrentPath\<close>: the keys from the bottom of the stack to its top.\<close>

definition trackerPath :: "IndentationTracker \<Rightarrow> string list" where
  "trackerPath t = rev (map il_key (indentStack t))"

section \<open>The context analyzer\<close>

record ParsingContext =
  resourceType :: "string option"
  apiVersion :: "string option"
  currentPath :: "string list"
  inBlockScalar :: bool
  blockScalarIndent :: "nat option"
  documentIndex :: nat

record ContextAnalyzer =
  ca_context :: ParsingContext
  ca_tracker :: IndentationTracker

definition createEmptyContext :: ParsingContext where
  "createEmptyContext = \<lparr>resourceType = None, apiVersion = None, currentPath = [],
     inBlockScalar = False, blockScalarIndent = None, documentIndex = 0\<rparr>"

definition newAnalyzer :: ContextAnalyzer where
  "newAnalyzer = \<lparr>ca_context = createEmptyContext, ca_tracker = newTracker\<rparr>"

text \<open>The test \<open>/^[a-zA-Z][a-zA-Z0-9_-]*$/\<close>.\<close>

definition isSingleWord :: "string \<Rightarrow> bool" where
  "isSingleWord s = (case s of [] \<Rightarrow> False | c # cs \<Rightarrow> isAlpha c \<and> list_all isKeyChar cs)"

definition classifyLine :: "string \<Rightarrow> LineType" where
  "classifyLine trimmed =
     (if trimmed = [] then blank
      else if startsWith trimmed ''#'' then comment
      else if trimmed = ''---'' \<or> trimmed = ''...'' then separator
      else if trimmed = ''|'' \<or> trimmed = ''>'' \<or> trimmed = ''|-'' \<or> trimmed = ''>-''
        then block_scalar
      else if startsWith trimmed ''- '' then
        (if includesStr (trim (substringFrom trimmed 2)) '':'' then list_item else list_item)
      else if includesStr trimmed '':'' then
        (case indexOf trimmed '':'' of
           None \<Rightarrow> key_value
         | Some colonIndex \<Rightarrow>
             (let afterColon = trim (substringFrom trimmed (colonIndex + 1)) in
              if afterColon = [] \<or> startsWith afterColon ''#'' then key_only else key_value))
      else if isSingleWord trimmed then key_only
      else value_only)"

definition extractKeyValue :: "SemanticLine \<Rightarrow> string \<Rightarrow> SemanticLine" where
  "extractKeyValue line trimmed0 =
     (let trimmed = (if startsWith trimmed0 ''- '' then trim (substringFrom trimmed0 2) else trimmed0) in
      case indexOf trimmed '':'' of
        Some colonIndex \<Rightarrow>
          line\<lparr>sl_key := Some (trim (substring trimmed 0 colonIndex)),
               sl_value := Some (trim (substringFrom trimmed (colonIndex + 1)))\<rparr>
      | None \<Rightarrow> line\<lparr>sl_key := Some trimmed\<rparr>)"

definition updateContext :: "SemanticLine \<Rightarrow> ContextAnalyzer \<Rightarrow> ContextAnalyzer" where
  "updateContext line a =
     (let c0 = ca_context a;
          c1 = (if sl_key line = Some ''kind'' \<and> truthy (sl_value line)
                then c0\<lparr>resourceType := sl_value line\<rparr> else c0);
          c2 = (if sl_key line = Some ''apiVersion'' \<and> truthy (sl_value line)
                then c1\<lparr>apiVersion := sl_value line\<rparr> else c1);
          c3 = c2\<lparr>currentPath := trackerPath (ca_tracker a)\<rparr>;
          c4 = (if sl_type line = block_scalar
                then c3\<lparr>inBlockScalar := True, blockScalarIndent := Some (sl_indent line)\<rparr>
                else if inBlockScalar c3
                        \<and> sl_indent line \<le> (case blockScalarIndent c3 of None \<Rightarrow> 0 | Some b \<Rightarrow> b)
                then c3\<lparr>inBlockScalar := False, blockScalarIndent := None\<rparr>
                else c3);
          t = (if truthy (sl_key line) \<and> sl_type line \<noteq> value_only
               then push (sl_indent line) (the (sl_key line))
                      (if sl_isListItem line then LArray else LObject) (sl_lineNumber line)
                      (ca_tracker a)
               else ca_tracker a)
      in \<lparr>ca_context = c4, ca_tracker = t\<rparr>)"

definition analyzeLine :: "nat \<Rightarrow> string \<Rightarrow> ContextAnalyzer \<Rightarrow> SemanticLine \<times> ContextAnalyzer" where
  "analyzeLine lineNo content a =
     (let trimmed = trim content;
          indent = getIndent content;
          a1 = a\<lparr>ca_tracker := processLine lineNo content indent (ca_tracker a)\<rparr>;
          lineType = classifyLine trimmed;
          semanticLine0 = \<lparr>sl_lineNumber = lineNo, sl_content = content, sl_indent = indent,
            sl_type = lineType, sl_key = None, sl_value = None,
            sl_isListItem = startsWith trimmed ''-'', sl_hasColon = includesStr trimmed '':'',
            sl_parent = None, sl_children = []\<rparr>;
          semanticLine = (if lineType = key_value \<or> lineType = key_only
                          then extractKeyValue semanticLine0 trimmed else semanticLine0)
      in (semanticLine, updateContext semanticLine a1))"

section \<open>The semantic parser\<close>

record SemanticParser =
  sp_lines :: "SemanticLine list"
  sp_analyzer :: ContextAnalyzer

text \<open>The loop of \<open>SemanticParser.parse\<close> over the raw lines; \<open>i\<close> is the loop index.
  Inside a block scalar the line is recorded as \<open>block-scalar\<close> and the analyzer still
  sees it.\<close>

fun parseLoop :: "nat \<Rightarrow> string list \<Rightarrow> ContextAnalyzer \<Rightarrow> SemanticLine list \<times> ContextAnalyzer" where
  "parseLoop i [] a = ([], a)"
| "parseLoop i (content # rest) a =
     (let lineNo = i + 1 in
      if inBlockScalar (ca_context a) then
        (let semanticLine = \<lparr>sl_lineNumber = lineNo, sl_content = content,
               sl_indent = getIndent content, sl_type = block_scalar, sl_key = None,
               sl_value = None, sl_isListItem = False, sl_hasColon = False,
               sl_parent = None, sl_children = []\<rparr>;
             a1 = snd (analyzeLine lineNo content a);
             r = parseLoop (i + 1) rest a1
         in (semanticLine # fst r, snd r))
      else
        (let r1 = analyzeLine lineNo content a;
             r = parseLoop (i + 1) rest (snd r1)
         in (fst r1 # fst r, snd r)))"

text \<open>\<open>buildRelationships\<close>.  The stack holds positions in the list of lines, head on
  top.\<close>

fun popLines :: "nat \<Rightarrow> nat list \<Rightarrow> SemanticLine list \<Rightarrow> nat list" where
  "popLines indent [] lines = []"
| "popLines indent (p # rest) lines =
     (if indent \<le> sl_indent (lines ! p) then popLines indent rest lines else p # rest)"

definition linkLine :: "nat \<Rightarrow> nat list \<times> SemanticLine list \<Rightarrow> nat list \<times> SemanticLine list" where
  "linkLine i st =
     (case st of (stack, lines) \<Rightarrow>
       (let line = lines ! i in
        if sl_type line = blank \<or> sl_type line = comment then (stack, lines)
        else
          (let stack1 = popLines (sl_indent line) stack lines;
               lines1 = (case stack1 of
                           [] \<Rightarrow> lines
                         | p # _ \<Rightarrow>
                             (lines[i := line\<lparr>sl_parent := Some (sl_lineNumber (lines ! p))\<rparr>])
                               [p := (lines ! p)\<lparr>sl_children :=
                                        sl_children (lines ! p) @ [sl_lineNumber line]\<rparr>]);
               stack2 = (if sl_type line = key_only \<or> sl_type line = key_value
                            \<or> sl_type line = list_item
                         then i # stack1 else stack1)
           in (stack2, lines1))))"

definition buildRelationships :: "SemanticLine list \<Rightarrow> SemanticLine list" where
  "buildRelationships lines = snd (fold linkLine [0..<length lines] ([], lines))"

definition parse :: "string \<Rightarrow> SemanticParser" where
  "parse yamlContent =
     (let r = parseLoop 0 (splitLines yamlContent) newAnalyzer
      in \<lparr>sp_lines = buildRelationships (fst r), sp_analyzer = snd r\<rparr>)"

definition findSiblings :: "SemanticParser \<Rightarrow> SemanticLine \<Rightarrow> SemanticLine list" where
  "findSiblings parser line =
     filter (\<lambda>l. sl_parent l = sl_parent line \<and> sl_indent l = sl_indent line
                \<and> sl_lineNumber l \<noteq> sl_lineNumber line
                \<and> sl_type l \<noteq> blank \<and> sl_type l \<noteq> comment)
       (sp_lines parser)"

text \<open>\<open>getNextNonBlankLine(lineNumber)\<close>: the first line at a position from
  \<open>lineNumber\<close> on (the position after the line with that number) that is neither blank
  nor a comment.\<close>

definition getNextNonBlankLine :: "SemanticParser \<Rightarrow> nat \<Rightarrow> SemanticLine option" where
  "getNextNonBlankLine parser lineNo =
     (case filter (\<lambda>l. sl_type l \<noteq> blank \<and> sl_type l \<noteq> comment) (drop lineNo (sp_lines parser)) of
        [] \<Rightarrow> None
      | l # _ \<Rightarrow> Some l)"

text \<open>A fix suggestion for a line, used in the examples.\<close>

definition sampleFix :: "int \<Rightarrow> string \<Rightarrow> FixSuggestion" where
  "sampleFix n txt = \<lparr>lineNumber = n, fixType = missing_colon, original = [], fixed = txt,
     reason = [], confidence = 1, severity = error, hasStandardPattern = False\<rparr>"

text \<open>The invariant of the tracker's stack: the indents increase strictly from the
  bottom of the stack to its top (they decrease strictly from the head of the list).\<close>

definition stackIncreasing :: "IndentLevel list \<Rightarrow> bool" where
  "stackIncreasing stack = sorted_wrt (>) (map il_indent stack)"

section \<open>The knowledge base\<close>

text \<open>\<open>KNOWN_FIELDS\<close>, in the order of insertion (the set drops the second occurrences
  of \<open>rules\<close> and \<open>resources\<close>).\<close>

definition KNOWN_FIELDS :: "string list" where
  "KNOWN_FIELDS =
     [''apiVersion'', ''kind'', ''metadata'', ''spec'', ''status'', ''data'',
      ''name'', ''namespace'', ''labels'', ''annotations'', ''uid'', ''resourceVersion'',
      ''generation'', ''creationTimestamp'', ''deletionTimestamp'', ''ownerReferences'',
      ''finalizers'',
      ''replicas'', ''selector'', ''template'', ''strategy'', ''minReadySeconds'',
      ''revisionHistoryLimit'', ''progressDeadlineSeconds'', ''paused'',
      ''containers'', ''initContainers'', ''volumes'', ''restartPolicy'',
      ''terminationGracePeriodSeconds'', ''dnsPolicy'', ''serviceAccountName'',
      ''serviceAccount'', ''nodeName'', ''nodeSelector'', ''affinity'', ''tolerations'',
      ''hostNetwork'', ''hostPID'', ''hostIPC'', ''securityContext'', ''imagePullSecrets'',
      ''hostname'', ''subdomain'', ''schedulerName'', ''priorityClassName'', ''priority'',
      ''image'', ''imagePullPolicy'', ''command'', ''args'', ''workingDir'', ''ports'',
      ''env'', ''envFrom'', ''resources'', ''volumeMounts'', ''livenessProbe'',
      ''readinessProbe'', ''startupProbe'', ''lifecycle'', ''stdin'', ''stdinOnce'', ''tty'',
      ''containerPort'', ''hostPort'', ''protocol'', ''hostIP'',
      ''value'', ''valueFrom'',
      ''limits'', ''requests'', ''cpu'', ''memory'', ''storage'',
      ''mountPath'', ''subPath'', ''readOnly'',
      ''httpGet'', ''tcpSocket'', ''exec'', ''initialDelaySeconds'', ''timeoutSeconds'',
      ''periodSeconds'', ''successThreshold'', ''failureThreshold'',
      ''type'', ''clusterIP'', ''externalIPs'', ''sessionAffinity'', ''loadBalancerIP'',
      ''loadBalancerSourceRanges'', ''externalName'', ''externalTrafficPolicy'',
      ''healthCheckNodePort'', ''publishNotReadyAddresses'',
      ''port'', ''targetPort'', ''nodePort'',
      ''binaryData'', ''stringData'', ''immutable'',
      ''emptyDir'', ''hostPath'', ''configMap'', ''secret'', ''persistentVolumeClaim'',
      ''nfs'', ''awsElasticBlockStore'', ''gcePersistentDisk'', ''azureDisk'', ''azureFile'',
      ''csi'', ''projected'', ''downwardAPI'',
      ''accessModes'', ''storageClassName'', ''volumeMode'', ''volumeName'',
      ''rules'', ''tls'', ''backend'', ''host'', ''http'', ''paths'', ''path'', ''pathType'',
      ''serviceName'', ''servicePort'',
      ''subjects'', ''roleRef'', ''verbs'', ''apiGroups'', ''resourceNames'',
      ''schedule'', ''concurrencyPolicy'', ''suspend'', ''successfulJobsHistoryLimit'',
      ''failedJobsHistoryLimit'', ''completions'', ''parallelism'', ''backoffLimit'',
      ''activeDeadlineSeconds'', ''ttlSecondsAfterFinished'']"

definition FIELD_ALIASES :: "(string \<times> string list) list" where
  "FIELD_ALIASES =
     [(''metadata'', [''metdata'', ''meta'', ''met'']),
      (''apiVersion'', [''api'', ''version'', ''apiv'']),
      (''kind'', [''type'', ''resource'']),
      (''spec'', [''specification'', ''spc'']),
      (''replicas'', [''replica'', ''reps'']),
      (''containers'', [''container'', ''ctr'']),
      (''image'', [''img'', ''imageName'']),
      (''name'', [''nm'', ''id'']),
      (''namespace'', [''ns'', ''namespaces'']),
      (''labels'', [''label'', ''tags'']),
      (''annotations'', [''annotation'', ''notes'']),
      (''selector'', [''select'', ''sel'']),
      (''template'', [''tmpl'', ''temp'']),
      (''volumeMounts'', [''volumeMount'', ''mounts'']),
      (''volumes'', [''volume'', ''vol'']),
      (''env'', [''environment'', ''envs'']),
      (''ports'', [''port'']),
      (''resources'', [''resource'', ''res'']),
      (''limits'', [''limit'']),
      (''requests'', [''request'', ''req''])]"

text \<open>The three tests of \<open>FIELD_PATTERNS\<close>: \<open>/^[a-z][a-zA-Z0-9]*$/\<close>,
  \<open>/^[a-z][a-z0-9-]*$/\<close> and \<open>/^[a-z]+$/\<close>.\<close>

definition matchesKubernetesPattern :: "string \<Rightarrow> bool" where
  "matchesKubernetesPattern fieldName =
     (case fieldName of
        [] \<Rightarrow> False
      | c # cs \<Rightarrow>
          (isLower c \<and> list_all isAlnum cs)
          \<or> (isLower c \<and> list_all (\<lambda>d. isLower d \<or> isDigit d \<or> d = CHR ''-'') cs)
          \<or> list_all isLower (c # cs))"

definition isKnownField :: "string \<Rightarrow> bool" where
  "isKnownField fieldName = (fieldName \<in> set KNOWN_FIELDS)"

text \<open>\<open>toLowerCase\<close> on the code units below 256.\<close>

definition lowerChar :: "char \<Rightarrow> char" where
  "lowerChar c =
     (if isUpper c \<or> (192 \<le> code c \<and> code c \<le> 222 \<and> code c \<noteq> 215)
      then char_of (code c + 32) else c)"

definition toLowerCase :: "string \<Rightarrow> string" where
  "toLowerCase s = map lowerChar s"

fun canonicalLoop :: "(string \<times> string list) list \<Rightarrow> string \<Rightarrow> string option" where
  "canonicalLoop [] fieldName = None"
| "canonicalLoop ((canonical, aliases) # rest) fieldName =
     (if toLowerCase fieldName \<in> set aliases then Some canonical
      else canonicalLoop rest fieldName)"

definition getCanonicalFieldName :: "string \<Rightarrow> string option" where
  "getCanonicalFieldName fieldName = canonicalLoop FIELD_ALIASES fieldName"

datatype FieldType = FString | FNumber | FBoolean | FObject | FArray | FAny

definition fieldTypeName :: "FieldType \<Rightarrow> string" where
  "fieldTypeName ty =
     (case ty of FString \<Rightarrow> ''string'' | FNumber \<Rightarrow> ''number'' | FBoolean \<Rightarrow> ''boolean''
      | FObject \<Rightarrow> ''object'' | FArray \<Rightarrow> ''array'' | FAny \<Rightarrow> ''any'')"

text \<open>\<open>TYPE_EXPECTATIONS\<close>: field, expected type and, for one entry, a context.\<close>

definition TYPE_EXPECTATIONS :: "(string \<times> FieldType \<times> string option) list" where
  "TYPE_EXPECTATIONS =
     map (\<lambda>f. (f, FBoolean, None))
       [''hostNetwork'', ''hostPID'', ''hostIPC'', ''readOnly'', ''privileged'',
        ''allowPrivilegeEscalation'', ''runAsNonRoot'', ''stdin'', ''stdinOnce'', ''tty'',
        ''immutable'', ''suspend'', ''paused'']
     @ map (\<lambda>f. (f, FNumber, None))
       [''replicas'', ''port'', ''containerPort'', ''targetPort'', ''hostPort'', ''nodePort'',
        ''initialDelaySeconds'', ''timeoutSeconds'', ''periodSeconds'', ''successThreshold'',
        ''failureThreshold'', ''terminationGracePeriodSeconds'', ''minReadySeconds'',
        ''revisionHistoryLimit'', ''progressDeadlineSeconds'', ''completions'',
        ''parallelism'', ''backoffLimit'', ''activeDeadlineSeconds'',
        ''ttlSecondsAfterFinished'', ''successfulJobsHistoryLimit'',
        ''failedJobsHistoryLimit'', ''runAsUser'', ''runAsGroup'', ''fsGroup'', ''priority'']
     @ map (\<lambda>f. (f, FString, None))
       [''name'', ''namespace'', ''image'', ''imagePullPolicy'', ''restartPolicy'',
        ''dnsPolicy'', ''type'', ''protocol'', ''mountPath'', ''subPath'', ''path'',
        ''pathType'', ''storageClassName'', ''volumeMode'', ''concurrencyPolicy'',
        ''schedule'', ''apiVersion'', ''kind'']
     @ map (\<lambda>f. (f, FObject, None))
       [''metadata'', ''spec'', ''template'', ''selector'', ''labels'', ''annotations'',
        ''resources'', ''limits'', ''requests'', ''securityContext'', ''affinity'',
        ''nodeSelector'', ''httpGet'', ''tcpSocket'', ''exec'', ''valueFrom'',
        ''configMapKeyRef'', ''secretKeyRef'', ''fieldRef'', ''resourceFieldRef'']
     @ map (\<lambda>f. (f, FArray, None))
       [''containers'', ''initContainers'', ''volumes'', ''volumeMounts'', ''env'',
        ''envFrom'', ''ports'', ''command'', ''args'', ''tolerations'', ''imagePullSecrets'',
        ''finalizers'', ''ownerReferences'', ''accessModes'', ''rules'', ''paths'', ''tls'',
        ''subjects'', ''verbs'', ''apiGroups'']
     @ [(''resources'', FArray, Some ''rbac''), (''resourceNames'', FArray, None)]"

text \<open>\<open>getExpectedType(fieldName, context)\<close>; the fixers call it without a context.\<close>

definition getExpectedType :: "string \<Rightarrow> string option \<Rightarrow> FieldType option" where
  "getExpectedType fieldName context =
     (case filter (\<lambda>(f, ty, c). f = fieldName \<and> (c = None \<or> c = context)) TYPE_EXPECTATIONS of
        [] \<Rightarrow> None
      | (f, ty, c) # _ \<Rightarrow> Some ty)"

section \<open>The fuzzy matcher\<close>

text \<open>\<open>levenshteinDistance\<close> fills its matrix row by row.  \<open>nextRow\<close> computes the cells
  1 to \<open>len2\<close> of row \<open>i\<close> from row \<open>i - 1\<close> (\<open>prev\<close>, from cell 0 on) and the cell to the
  left.\<close>

fun nextRow :: "char \<Rightarrow> string \<Rightarrow> nat list \<Rightarrow> nat \<Rightarrow> nat list" where
  "nextRow c (d # ds) (diag # up # prev) left =
     (let cost = (if c = d then 0 else 1);
          v = min (min (up + 1) (left + 1)) (diag + cost)
      in v # nextRow c ds (up # prev) v)"
| "nextRow c ds prev left = []"

fun levenshteinRows :: "nat \<Rightarrow> string \<Rightarrow> string \<Rightarrow> nat list \<Rightarrow> nat list" where
  "levenshteinRows i [] str2 row = row"
| "levenshteinRows i (c # cs) str2 row = levenshteinRows (i + 1) cs str2 (i # nextRow c str2 row i)"

definition levenshteinDistance :: "string \<Rightarrow> string \<Rightarrow> nat" where
  "levenshteinDistance str1 str2 = last (levenshteinRows 1 str1 str2 [0..<length str2 + 1])"

text \<open>The loop of \<open>findClosestMatch\<close>; the accumulator is \<open>(closestMatch, minDistance)\<close>,
  \<open>None\<close> standing for \<open>null\<close> and for \<open>Infinity\<close>.\<close>

fun closestLoop :: "string \<Rightarrow> string list \<Rightarrow> nat \<Rightarrow> (string \<times> nat) option \<Rightarrow> (string \<times> nat) option" where
  "closestLoop target [] maxDistance acc = acc"
| "closestLoop target (candidate # rest) maxDistance acc =
     (let distance = levenshteinDistance (toLowerCase target) (toLowerCase candidate) in
      if distance \<le> maxDistance \<and> (case acc of None \<Rightarrow> True | Some (m, minDistance) \<Rightarrow> distance < minDistance)
      then closestLoop target rest maxDistance (Some (candidate, distance))
      else closestLoop target rest maxDistance acc)"

definition findClosestMatch :: "string \<Rightarrow> string list \<Rightarrow> nat \<Rightarrow> (string \<times> nat) option" where
  "findClosestMatch target candidates maxDistance =
     (case closestLoop target candidates maxDistance None of
        None \<Rightarrow> None
      | Some (closestMatch, minDistance) \<Rightarrow>
          if closestMatch \<noteq> [] then Some (closestMatch, minDistance) else None)"

text \<open>For a target of length 0 the ratio of the source is \<open>-Infinity\<close>, and the result
  is 0.\<close>

definition calculateFuzzyConfidence :: "nat \<Rightarrow> nat \<Rightarrow> real" where
  "calculateFuzzyConfidence distance targetLength =
     (if distance = 0 then 1.0
      else if distance = 1 then 0.9
      else if distance = 2 then 0.7
      else if targetLength = 0 then 0
      else max 0 (1 - real distance / real targetLength))"

section \<open>The fix-detection passes\<close>

record FixerOptions =
  confidenceThreshold :: real
  aggressive :: bool
  maxIterations :: int
  enableLearning :: bool
  enableRelocation :: bool
  indentSize :: int

text \<open>\<open>s.split(/\s+/)\<close>; the flag says that the character before was white space.\<close>

fun splitWsAux :: "bool \<Rightarrow> string \<Rightarrow> string list" where
  "splitWsAux inWs [] = [[]]"
| "splitWsAux inWs (c # cs) =
     (if isWs c then (if inWs then splitWsAux True cs else [] # splitWsAux True cs)
      else (case splitWsAux False cs of
              l # ls \<Rightarrow> (c # l) # ls
            | [] \<Rightarrow> [[c]]))"

definition splitWs :: "string \<Rightarrow> string list" where
  "splitWs s = splitWsAux False s"

text \<open>A number printed in decimal.\<close>

function showNat :: "nat \<Rightarrow> string" where
  "showNat n =
     (if n < 10 then [char_of (48 + n)] else showNat (n div 10) @ [char_of (48 + n mod 10)])"
  by pat_completeness auto
termination
  by (relation "measure (\<lambda>n. n)") auto

subsection \<open>ContextAwareKeyFixer\<close>

definition detectMissingColonInListItem ::
  "SemanticParser \<Rightarrow> SemanticLine \<Rightarrow> string \<Rightarrow> FixSuggestion option" where
  "detectMissingColonInListItem parser line trimmed =
     (let afterDash = trim (substringFrom trimmed 2);
          parts = splitWs afterDash;
          key = hd parts;
          val = joinWith '' '' (tl parts);
          indent = spaces (sl_indent line)
      in
      if length parts \<ge> 2 \<and> isKnownField key then
        Some \<lparr>lineNumber = int (sl_lineNumber line), fixType = missing_colon,
          original = sl_content line, fixed = indent @ ''- '' @ key @ '': '' @ val,
          reason = ''Missing colon after \"'' @ key @ ''\" in list item'',
          confidence = 0.95, severity = error, hasStandardPattern = False\<rparr>
      else if length parts \<ge> 2 \<and> matchesKubernetesPattern key then
        Some \<lparr>lineNumber = int (sl_lineNumber line), fixType = missing_colon,
          original = sl_content line, fixed = indent @ ''- '' @ key @ '': '' @ val,
          reason = ''Likely missing colon after \"'' @ key @ ''\" in list item'',
          confidence = 0.7, severity = warning, hasStandardPattern = False\<rparr>
      else if length parts = 1 then
        (case getNextNonBlankLine parser (sl_lineNumber line) of
           None \<Rightarrow> None
         | Some nextLine \<Rightarrow>
             if sl_indent nextLine > sl_indent line then
               (let confidence = (if isKnownField key then 0.95
                                  else if matchesKubernetesPattern key then 0.75 else 0.6)
                in Some \<lparr>lineNumber = int (sl_lineNumber line), fixType = missing_colon,
                     original = sl_content line, fixed = indent @ ''- '' @ key @ '':'',
                     reason = ''Missing colon after \"'' @ key @ ''\" (has child elements)'',
                     confidence = confidence,
                     severity = (if confidence \<ge> 0.8 then error else warning),
                     hasStandardPattern = False\<rparr>)
             else None)
      else None)"

definition detectMissingColonInKey ::
  "SemanticParser \<Rightarrow> SemanticLine \<Rightarrow> string \<Rightarrow> FixSuggestion option" where
  "detectMissingColonInKey parser line trimmed =
     (let parts = splitWs trimmed;
          key = hd parts;
          val = joinWith '' '' (tl parts);
          indent = spaces (sl_indent line)
      in
      if length parts \<ge> 2 \<and> isKnownField key then
        Some \<lparr>lineNumber = int (sl_lineNumber line), fixType = missing_colon,
          original = sl_content line, fixed = indent @ key @ '': '' @ val,
          reason = ''Missing colon after known Kubernetes field \"'' @ key @ ''\"'',
          confidence = 0.95, severity = error, hasStandardPattern = False\<rparr>
      else if length parts \<ge> 2 \<and> matchesKubernetesPattern key then
        (case getExpectedType key None of
           Some expectedType \<Rightarrow>
             if expectedType \<noteq> FObject \<and> expectedType \<noteq> FArray then
               Some \<lparr>lineNumber = int (sl_lineNumber line), fixType = missing_colon,
                 original = sl_content line, fixed = indent @ key @ '': '' @ val,
                 reason = ''Missing colon after \"'' @ key @ ''\" (expects ''
                            @ fieldTypeName expectedType @ '' value)'',
                 confidence = 0.85, severity = error, hasStandardPattern = False\<rparr>
             else
               Some \<lparr>lineNumber = int (sl_lineNumber line), fixType = missing_colon,
                 original = sl_content line, fixed = indent @ key @ '': '' @ val,
                 reason = ''Likely missing colon after \"'' @ key @ ''\"'',
                 confidence = 0.7, severity = warning, hasStandardPattern = False\<rparr>
         | None \<Rightarrow>
             Some \<lparr>lineNumber = int (sl_lineNumber line), fixType = missing_colon,
               original = sl_content line, fixed = indent @ key @ '': '' @ val,
               reason = ''Likely missing colon after \"'' @ key @ ''\"'',
               confidence = 0.7, severity = warning, hasStandardPattern = False\<rparr>)
      else if length parts = 1 then
        (case getNextNonBlankLine parser (sl_lineNumber line) of
           None \<Rightarrow> None
         | Some nextLine \<Rightarrow>
             if sl_indent nextLine > sl_indent line then
               (let confidence0 = (if isKnownField key then 0.95
                                   else if matchesKubernetesPattern key then 0.75 else 0.6);
                    siblings = findSiblings parser line;
                    siblingsWithColons = length (filter sl_hasColon siblings);
                    confidence =
                      (if length siblings > 0
                          \<and> real siblingsWithColons / real (length siblings) > 0.8
                       then max confidence0 0.85 else confidence0)
                in Some \<lparr>lineNumber = int (sl_lineNumber line), fixType = missing_colon,
                     original = sl_content line, fixed = indent @ key @ '':'',
                     reason = ''Missing colon after \"'' @ key @ ''\" (has child elements)'',
                     confidence = confidence,
                     severity = (if confidence \<ge> 0.8 then error else warning),
                     hasStandardPattern = False\<rparr>)
             else None)
      else None)"

definition detectMissingColon :: "SemanticParser \<Rightarrow> SemanticLine \<Rightarrow> FixSuggestion option" where
  "detectMissingColon parser line =
     (let trimmed = trim (sl_content line) in
      if startsWith trimmed ''- '' then detectMissingColonInListItem parser line trimmed
      else detectMissingColonInKey parser line trimmed)"

text \<open>The loop of \<open>findMissingColons\<close> over the lines of the parser.\<close>

fun missingColonsLoop :: "SemanticParser \<Rightarrow> FixerOptions \<Rightarrow> SemanticLine list \<Rightarrow> FixSuggestion list" where
  "missingColonsLoop parser opts [] = []"
| "missingColonsLoop parser opts (line # rest) =
     (if sl_hasColon line \<or> sl_type line = blank \<or> sl_type line = comment
         \<or> sl_type line = block_scalar
      then missingColonsLoop parser opts rest
      else (case detectMissingColon parser line of
              Some f \<Rightarrow>
                if confidence f \<ge> confidenceThreshold opts
                then f # missingColonsLoop parser opts rest
                else missingColonsLoop parser opts rest
            | None \<Rightarrow> missingColonsLoop parser opts rest))"

definition findMissingColons :: "SemanticParser \<Rightarrow> FixerOptions \<Rightarrow> FixSuggestion list" where
  "findMissingColons parser opts = missingColonsLoop parser opts (sp_lines parser)"

subsection \<open>FieldNormalizer\<close>

text \<open>The path is the one the analyzer holds when the parse is over.\<close>

definition isContextAppropriate :: "SemanticParser \<Rightarrow> SemanticLine \<Rightarrow> string \<Rightarrow> bool" where
  "isContextAppropriate parser line suggestedField =
     (let path = currentPath (ca_context (sp_analyzer parser)) in
      if length path = 0 then
        suggestedField \<in> set [''apiVersion'', ''kind'', ''metadata'', ''spec'', ''data'', ''status'']
      else if ''metadata'' \<in> set path then
        suggestedField \<in> set [''name'', ''namespace'', ''labels'', ''annotations'', ''uid'',
                               ''resourceVersion'']
      else True)"

text \<open>The arrow in the reason is written \<open>->\<close> here.\<close>

definition createTypoFix :: "SemanticLine \<Rightarrow> string \<Rightarrow> real \<Rightarrow> string \<Rightarrow> FixSuggestion" where
  "createTypoFix line correctField conf why =
     (let indent = spaces (sl_indent line);
          prefix = (if sl_isListItem line then ''- '' else []);
          suffix = (if sl_hasColon line
                    then '':'' @ (if truthy (sl_value line) then '' '' @ the (sl_value line) else [])
                    else [])
      in \<lparr>lineNumber = int (sl_lineNumber line), fixType = field_normalization,
           original = sl_content line, fixed = indent @ prefix @ correctField @ suffix,
           reason = why @ '': \"'' @ the (sl_key line) @ ''\" -> \"'' @ correctField @ ''\"'',
           confidence = conf,
           severity = (if conf \<ge> 0.85 then error else warning),
           hasStandardPattern = False\<rparr>)"

text \<open>\<open>confidence + 0.1\<close> is a sum of doubles.  The distance is at most 2 here, so the
  confidence is 1, 0.9 or 0.7.  The sums for 1 and 0.9 are the doubles of 1.1 and 1; the
  sum for 0.7 is the double next below the one of 0.8, which prints as
  0.7999999999999999.\<close>

definition addTenth :: "real \<Rightarrow> real" where
  "addTenth c = (if c = 0.7 then 0.7999999999999999 else c + 0.1)"

definition detectTypo :: "SemanticParser \<Rightarrow> SemanticLine \<Rightarrow> FixSuggestion option" where
  "detectTypo parser line =
     (let fieldName = the (sl_key line) in
      if fieldName \<in> set KNOWN_FIELDS then None
      else (case getCanonicalFieldName fieldName of
              Some canonical \<Rightarrow> Some (createTypoFix line canonical 0.9 ''Known alias'')
            | None \<Rightarrow>
                (case findClosestMatch fieldName KNOWN_FIELDS 2 of
                   Some (match, distance) \<Rightarrow>
                     (let confidence = calculateFuzzyConfidence distance (length fieldName) in
                      if isContextAppropriate parser line match then
                        Some (createTypoFix line match (min (addTenth confidence) 1.0)
                                (''Likely typo (distance: '' @ showNat distance @ '')''))
                      else
                        Some (createTypoFix line match confidence
                                (''Possible typo (distance: '' @ showNat distance @ '')'')))
                 | None \<Rightarrow> None)))"

fun typosLoop :: "SemanticParser \<Rightarrow> FixerOptions \<Rightarrow> SemanticLine list \<Rightarrow> FixSuggestion list" where
  "typosLoop parser opts [] = []"
| "typosLoop parser opts (line # rest) =
     (if \<not> truthy (sl_key line) \<or> sl_type line = blank \<or> sl_type line = comment
         \<or> sl_type line = block_scalar
      then typosLoop parser opts rest
      else (case detectTypo parser line of
              Some f \<Rightarrow>
                if confidence f \<ge> confidenceThreshold opts
                then f # typosLoop parser opts rest
                else typosLoop parser opts rest
            | None \<Rightarrow> typosLoop parser opts rest))"

definition findTypos :: "SemanticParser \<Rightarrow> FixerOptions \<Rightarrow> FixSuggestion list" where
  "findTypos parser opts = typosLoop parser opts (sp_lines parser)"

subsection \<open>ListStructureFixer\<close>

text \<open>The tests \<open>/^-\s+[A-Z_][A-Z0-9_]*$/\<close> and \<open>/^-\s+[a-z][a-z0-9-]*$/\<close>: a dash, at least
  one white space, and a name of the given shape up to the end.\<close>

definition dashThenName :: "(char \<Rightarrow> bool) \<Rightarrow> (char \<Rightarrow> bool) \<Rightarrow> string \<Rightarrow> bool" where
  "dashThenName first other s =
     (case s of
        [] \<Rightarrow> False
      | c # cs \<Rightarrow>
          c = CHR ''-'' \<and> takeWhile isWs cs \<noteq> []
          \<and> (case dropWhile isWs cs of
                [] \<Rightarrow> False
              | d # ds \<Rightarrow> first d \<and> list_all other ds))"

definition isEnvItem :: "string \<Rightarrow> bool" where
  "isEnvItem s =
     dashThenName (\<lambda>c. isUpper c \<or> c = CHR ''_'') (\<lambda>c. isUpper c \<or> isDigit c \<or> c = CHR ''_'') s"

definition isSimpleItem :: "string \<Rightarrow> bool" where
  "isSimpleItem s = dashThenName isLower (\<lambda>c. isLower c \<or> isDigit c \<or> c = CHR ''-'') s"

definition fixBrokenEnvVar :: "SemanticParser \<Rightarrow> SemanticLine \<Rightarrow> FixSuggestion option" where
  "fixBrokenEnvVar parser line =
     (let trimmed = trim (sl_content line) in
      if \<not> isEnvItem trimmed then None
      else (case getNextNonBlankLine parser (sl_lineNumber line) of
              None \<Rightarrow> None
            | Some nextLine \<Rightarrow>
                if sl_key nextLine = Some ''value'' \<or> sl_key nextLine = Some ''valueFrom'' then
                  (let envName = trim (substringFrom trimmed 2);
                       indent = spaces (sl_indent line)
                   in Some \<lparr>lineNumber = int (sl_lineNumber line), fixType = list_restructure,
                        original = sl_content line, fixed = indent @ ''- name: '' @ envName,
                        reason = ''Restructuring broken env var \"'' @ envName
                                   @ ''\" to standard format'',
                        confidence = 0.85, severity = error, hasStandardPattern = True\<rparr>)
                else None))"

definition fixBrokenContainer :: "SemanticParser \<Rightarrow> SemanticLine \<Rightarrow> FixSuggestion option" where
  "fixBrokenContainer parser line =
     (let trimmed = trim (sl_content line) in
      if \<not> isSimpleItem trimmed then None
      else (case getNextNonBlankLine parser (sl_lineNumber line) of
              None \<Rightarrow> None
            | Some nextLine \<Rightarrow>
                if sl_key nextLine = Some ''image'' \<and> sl_indent nextLine > sl_indent line then
                  (let containerName = trim (substringFrom trimmed 2);
                       indent = spaces (sl_indent line)
                   in Some \<lparr>lineNumber = int (sl_lineNumber line), fixType = list_restructure,
                        original = sl_content line, fixed = indent @ ''- name: '' @ containerName,
                        reason = ''Restructuring broken container \"'' @ containerName
                                   @ ''\" to standard format'',
                        confidence = 0.8, severity = error, hasStandardPattern = True\<rparr>)
                else None))"

definition fixBrokenVolumeMount :: "SemanticParser \<Rightarrow> SemanticLine \<Rightarrow> FixSuggestion option" where
  "fixBrokenVolumeMount parser line =
     (let trimmed = trim (sl_content line) in
      if \<not> isSimpleItem trimmed then None
      else (case getNextNonBlankLine parser (sl_lineNumber line) of
              None \<Rightarrow> None
            | Some nextLine \<Rightarrow>
                if sl_key nextLine = Some ''mountPath'' \<and> sl_indent nextLine > sl_indent line then
                  (let volumeName = trim (substringFrom trimmed 2);
                       indent = spaces (sl_indent line)
                   in Some \<lparr>lineNumber = int (sl_lineNumber line), fixType = list_restructure,
                        original = sl_content line, fixed = indent @ ''- name: '' @ volumeName,
                        reason = ''Restructuring broken volume mount \"'' @ volumeName
                                   @ ''\" to standard format'',
                        confidence = 0.8, severity = error, hasStandardPattern = True\<rparr>)
                else None))"

text \<open>A fix is kept when it is there and reaches the threshold.\<close>

definition keepFix :: "FixerOptions \<Rightarrow> FixSuggestion option \<Rightarrow> FixSuggestion list" where
  "keepFix opts r =
     (case r of
        Some f \<Rightarrow> if confidence f \<ge> confidenceThreshold opts then [f] else []
      | None \<Rightarrow> [])"

fun brokenListsLoop :: "SemanticParser \<Rightarrow> FixerOptions \<Rightarrow> SemanticLine list \<Rightarrow> FixSuggestion list" where
  "brokenListsLoop parser opts [] = []"
| "brokenListsLoop parser opts (line # rest) =
     (if \<not> sl_isListItem line then brokenListsLoop parser opts rest
      else keepFix opts (fixBrokenEnvVar parser line)
           @ keepFix opts (fixBrokenContainer parser line)
           @ keepFix opts (fixBrokenVolumeMount parser line)
           @ brokenListsLoop parser opts rest)"

definition findBrokenLists :: "SemanticParser \<Rightarrow> FixerOptions \<Rightarrow> FixSuggestion list" where
  "findBrokenLists parser opts = brokenListsLoop parser opts (sp_lines parser)"

section \<open>The iterative fixer\<close>

text \<open>The parser of YAML is outside of the repository: \<open>yaml.load\<close> is a parameter of the
  model, a function from a text to the parsed value or to the exception it throws.  The
  mark of an exception gives a line and a column, both counted from 0.\<close>

record YAMLException =
  mark :: "(nat \<times> nat) option"
  message :: string

type_synonym 'v YamlLoad = "string \<Rightarrow> YAMLException + 'v"

text \<open>Modelled from the spec: the type-coercion pass (the class \<open>TypeCoercer\<close>, imported by
  the fixer from a file that is not among the sources) is a parameter of the model: a
  function from the semantic parser and the options to the suggestions of
  \<open>findTypeMismatches\<close>.\<close>

type_synonym TypeCoercer = "SemanticParser \<Rightarrow> FixerOptions \<Rightarrow> FixSuggestion list"

record PartialOptions =
  p_confidenceThreshold :: "real option"
  p_aggressive :: "bool option"
  p_maxIterations :: "int option"
  p_enableLearning :: "bool option"
  p_enableRelocation :: "bool option"
  p_indentSize :: "int option"

definition noOptions :: PartialOptions where
  "noOptions = \<lparr>p_confidenceThreshold = None, p_aggressive = None, p_maxIterations = None,
     p_enableLearning = None, p_enableRelocation = None, p_indentSize = None\<rparr>"

text \<open>\<open>x ?? d\<close>.\<close>

definition orDefault :: "'a option \<Rightarrow> 'a \<Rightarrow> 'a" where
  "orDefault x d = (case x of None \<Rightarrow> d | Some v \<Rightarrow> v)"

text \<open>The constructor of \<open>IntelligentYAMLFixer\<close>.\<close>

definition newFixer :: "PartialOptions \<Rightarrow> FixerOptions" where
  "newFixer options =
     (let opts = \<lparr>confidenceThreshold = orDefault (p_confidenceThreshold options) 0.8,
                  aggressive = orDefault (p_aggressive options) False,
                  maxIterations = orDefault (p_maxIterations options) 3,
                  enableLearning = orDefault (p_enableLearning options) True,
                  enableRelocation = orDefault (p_enableRelocation options) True,
                  indentSize = orDefault (p_indentSize options) 2\<rparr>
      in if aggressive opts
         then opts\<lparr>confidenceThreshold := min (confidenceThreshold opts) 0.6\<rparr>
         else opts)"

text \<open>The suggestions of one iteration, in the order in which \<open>fix\<close> collects them, and
  those that pass the filter.\<close>

definition iterationFixes :: "TypeCoercer \<Rightarrow> FixerOptions \<Rightarrow> string \<Rightarrow> FixSuggestion list" where
  "iterationFixes typeCoercer opts currentYaml =
     (let parser = parse currentYaml
      in findMissingColons parser opts @ findTypos parser opts @ findBrokenLists parser opts
         @ typeCoercer parser opts)"

definition validFixes :: "TypeCoercer \<Rightarrow> FixerOptions \<Rightarrow> string \<Rightarrow> FixSuggestion list" where
  "validFixes typeCoercer opts currentYaml =
     filterByConfidence (iterationFixes typeCoercer opts currentYaml) (confidenceThreshold opts)"

record LoopState =
  allFixes :: "FixSuggestion list"
  currentYaml :: string
  iteration :: int

text \<open>The loop \<open>while (iteration < maxIterations)\<close> of \<open>fix\<close>, from a state of its three
  variables to their state when the loop is left.\<close>

function fixLoop :: "'v YamlLoad \<Rightarrow> TypeCoercer \<Rightarrow> FixerOptions \<Rightarrow> LoopState \<Rightarrow> LoopState" where
  "fixLoop yamlLoad typeCoercer opts st =
     (if iteration st < maxIterations opts then
        (let st1 = st\<lparr>iteration := iteration st + 1\<rparr>;
             valid = validFixes typeCoercer opts (currentYaml st1)
         in if length valid = 0 then st1
            else
              (let st2 = st1\<lparr>currentYaml := applyFixes (currentYaml st1) valid,
                             allFixes := allFixes st1 @ valid\<rparr>
               in case yamlLoad (currentYaml st2) of
                    Inr v \<Rightarrow> st2
                  | Inl e \<Rightarrow> fixLoop yamlLoad typeCoercer opts st2))
      else st)"
  by pat_completeness auto
termination
  by (relation "measure (\<lambda>(yamlLoad, typeCoercer, opts, st). nat (maxIterations opts - iteration st))")
     auto

record FixerError =
  fe_line :: nat
  fe_message :: string
  fe_severity :: LineSeverity

record ValidationResult =
  vr_isValid :: bool
  vr_fixes :: "FixSuggestion list"
  vr_errors :: "FixerError list"
  vr_warnings :: "string list"
  vr_fixedYaml :: string
  vr_confidence :: real

definition initialState :: "string \<Rightarrow> LoopState" where
  "initialState yamlContent = \<lparr>allFixes = [], currentYaml = yamlContent, iteration = 0\<rparr>"

text \<open>\<open>IntelligentYAMLFixer.fix\<close>.  The fixes are returned sorted by line number (a stable
  sort); the line of the error is \<open>error.mark?.line || 0\<close>.\<close>

definition IntelligentYAMLFixer_fix :: "'v YamlLoad \<Rightarrow> TypeCoercer \<Rightarrow> FixerOptions \<Rightarrow> string \<Rightarrow> ValidationResult" where
  "IntelligentYAMLFixer_fix yamlLoad typeCoercer opts yamlContent =
     (let st = fixLoop yamlLoad typeCoercer opts (initialState yamlContent);
          conf = calculateOverallConfidence (allFixes st);
          sortedFixes = sort_key lineNumber (allFixes st)
      in case yamlLoad (currentYaml st) of
           Inr v \<Rightarrow>
             \<lparr>vr_isValid = True, vr_fixes = sortedFixes, vr_errors = [], vr_warnings = [],
              vr_fixedYaml = currentYaml st, vr_confidence = conf\<rparr>
         | Inl e \<Rightarrow>
             \<lparr>vr_isValid = False, vr_fixes = sortedFixes,
              vr_errors = [\<lparr>fe_line = (case mark e of None \<Rightarrow> 0 | Some (l, c) \<Rightarrow> l),
                         fe_message = message e, fe_severity = error\<rparr>],
              vr_warnings = [], vr_fixedYaml = currentYaml st, vr_confidence = conf\<rparr>)"

text \<open>A type coercer that reports nothing, and a few parsers, for the examples.\<close>

definition noTypeFixes :: TypeCoercer where
  "noTypeFixes parser opts = []"

text \<open>Texts and parsers for the examples.  \<open>brokenList\<close> is a list item without a colon
  followed by two lines without colons; \<open>brokenListFixed\<close> is the same text with the three
  colons in place, the only one of the texts below that a YAML parser accepts.\<close>

definition brokenList :: string where
  "brokenList = ''- Frontend'' @ [NL] @ ''  img nginx'' @ [NL] @ ''  ns prod''"

definition brokenListFixed :: string where
  "brokenListFixed = ''- Frontend:'' @ [NL] @ ''  img: nginx'' @ [NL] @ ''  ns: prod''"

definition loadSample :: "unit YamlLoad" where
  "loadSample s =
     (if s = brokenListFixed then Inr ()
      else Inl \<lparr>mark = Some (1, 5), message = ''bad indentation of a sequence entry''\<rparr>)"

definition acceptAll :: "unit YamlLoad" where
  "acceptAll s = Inr ()"

definition withThreshold :: "real \<Rightarrow> PartialOptions" where
  "withThreshold t = noOptions\<lparr>p_confidenceThreshold := Some t\<rparr>"

text \<open>\<open>brokenList\<close> after the two iterations that the threshold 0.7 allows.\<close>

definition twiceFixed :: string where
  "twiceFixed = ''- Frontend'' @ [NL] @ ''  image: nginx'' @ [NL] @ ''  namespace: prod''"

definition oneIteration :: PartialOptions where
  "oneIteration = noOptions\<lparr>p_maxIterations := Some 1\<rparr>"

section \<open>The three-phase fixer: tables and line patterns\<close>

text \<open>The own entries of \<open>KEY_ALIASES\<close>.\<close>

definition KEY_ALIASES :: "(string \<times> string) list" where
  "KEY_ALIASES =
     [(''met'', ''metadata''), (''meta'', ''metadata''), (''metdata'', ''metadata''),
      (''metadata_'', ''metadata''), (''metadta'', ''metadata''),
      (''specf'', ''spec''), (''spec_'', ''spec''), (''sepc'', ''spec''), (''spc'', ''spec''),
      (''contianers'', ''containers''), (''containers_'', ''containers''),
      (''conteiners'', ''containers''), (''containres'', ''containers''),
      (''volumns'', ''volumes''), (''volums'', ''volumes''), (''volumes_'', ''volumes''),
      (''volumnes'', ''volumes''),
      (''envs'', ''env''), (''env_'', ''env''), (''enviroment'', ''env''),
      (''environment'', ''env''),
      (''labels_'', ''labels''), (''lables'', ''labels''), (''labes'', ''labels''),
      (''annotations_'', ''annotations''), (''annotaions'', ''annotations''),
      (''image_'', ''image''), (''img'', ''image''),
      (''ports_'', ''ports''), (''port_'', ''ports''),
      (''selector_'', ''selector''), (''selecter'', ''selector''),
      (''replicas_'', ''replicas''), (''replica'', ''replicas''),
      (''namespace_'', ''namespace''), (''namespce'', ''namespace''),
      (''namesapce'', ''namespace''),
      (''dat'', ''data''),
      (''securitycontext'', ''securityContext''), (''fsgroup'', ''fsGroup''),
      (''runasuser'', ''runAsUser''), (''accessmodes'', ''accessModes'')]"

text \<open>\<open>KEY_ALIASES\<close> and \<open>WORD_TO_NUM\<close> are plain objects, so a lookup also finds the
  properties every object inherits.  Their values are functions (an object for
  \<open>__proto__\<close>); the model keeps the text they turn into inside a template string.\<close>

definition inheritedProperty :: "string \<Rightarrow> string option" where
  "inheritedProperty k =
     (if k = ''constructor'' then Some ''function Object() { [native code] }''
      else if k \<in> set [''toString'', ''toLocaleString'', ''valueOf'', ''hasOwnProperty'',
                         ''isPrototypeOf'', ''propertyIsEnumerable'', ''__defineGetter__'',
                         ''__defineSetter__'', ''__lookupGetter__'', ''__lookupSetter__'']
        then Some (''function '' @ k @ ''() { [native code] }'')
      else if k = ''__proto__'' then Some ''[object Object]''
      else None)"

text \<open>\<open>KEY_ALIASES[k]\<close>: \<open>None\<close> for \<open>undefined\<close>.\<close>

definition aliasLookup :: "string \<Rightarrow> string option" where
  "aliasLookup k = (case map_of KEY_ALIASES k of Some v \<Rightarrow> Some v | None \<Rightarrow> inheritedProperty k)"

text \<open>\<open>a || b\<close> on two lookups.\<close>

definition orElse :: "'a option \<Rightarrow> 'a option \<Rightarrow> 'a option" where
  "orElse a b = (case a of Some v \<Rightarrow> Some v | None \<Rightarrow> b)"

definition KNOWN_K8S_KEYS :: "string list" where
  "KNOWN_K8S_KEYS =
     [''apiVersion'', ''kind'', ''metadata'', ''spec'', ''status'',
      ''name'', ''namespace'', ''labels'', ''annotations'',
      ''replicas'', ''selector'', ''template'', ''strategy'',
      ''containers'', ''initContainers'', ''volumes'', ''volumeMounts'',
      ''image'', ''imagePullPolicy'', ''command'', ''args'', ''env'', ''envFrom'',
      ''ports'', ''containerPort'', ''hostPort'', ''protocol'',
      ''resources'', ''limits'', ''requests'', ''cpu'', ''memory'',
      ''restartPolicy'', ''nodeSelector'', ''affinity'', ''tolerations'',
      ''serviceAccountName'', ''securityContext'', ''hostNetwork'',
      ''type'', ''clusterIP'', ''externalIPs'', ''loadBalancerIP'',
      ''port'', ''targetPort'', ''nodePort'',
      ''path'', ''pathType'', ''backend'', ''serviceName'', ''servicePort'',
      ''data'', ''stringData'', ''binaryData'',
      ''rules'', ''verbs'', ''apiGroups'',
      ''effect'', ''key'', ''operator'', ''value'', ''tolerationSeconds'',
      ''persistentVolumeClaim'', ''accessModes'', ''fsGroup'', ''runAsUser'', ''matchLabels'',
      ''claimName'', ''storage'', ''disktype'']"

definition NUMERIC_FIELDS :: "string list" where
  "NUMERIC_FIELDS =
     [''replicas'', ''containerPort'', ''port'', ''targetPort'', ''nodePort'',
      ''hostPort'', ''timeoutSeconds'', ''periodSeconds'', ''successThreshold'',
      ''failureThreshold'', ''initialDelaySeconds'', ''terminationGracePeriodSeconds'',
      ''activeDeadlineSeconds'', ''progressDeadlineSeconds'', ''revisionHistoryLimit'',
      ''minReadySeconds'', ''weight'', ''priority'']"

definition METADATA_FIELDS :: "string list" where
  "METADATA_FIELDS = [''name'', ''namespace'', ''labels'', ''annotations'', ''generateName'']"

definition SPEC_FIELDS :: "string list" where
  "SPEC_FIELDS = [''replicas'', ''selector'', ''template'', ''strategy'', ''minReadySeconds'',
     ''progressDeadlineSeconds'', ''revisionHistoryLimit'']"

definition POD_SPEC_FIELDS :: "string list" where
  "POD_SPEC_FIELDS = [''containers'', ''initContainers'', ''volumes'', ''restartPolicy'',
     ''nodeSelector'', ''affinity'', ''tolerations'', ''serviceAccountName'',
     ''securityContext'', ''hostNetwork'', ''dnsPolicy'', ''imagePullSecrets'']"

definition TAB :: char where
  "TAB = CHR 0x09"

text \<open>\<open>.\<close> of a regular expression: any character but a line terminator.\<close>

definition isDot :: "char \<Rightarrow> bool" where
  "isDot c = (c \<noteq> CHR 0x0A \<and> c \<noteq> CHR 0x0D)"

text \<open>\<open>line.search(/\S/)\<close>: the position of the first character that is not white space,
  -1 when there is none.\<close>

definition searchNonWs :: "string \<Rightarrow> int" where
  "searchNonWs line = (if list_all isWs line then - 1 else int (length (takeWhile isWs line)))"

text \<open>\<open>line.match(/^(\s*)/)?.[1] || ''\<close>.\<close>

definition leadingWs :: "string \<Rightarrow> string" where
  "leadingWs line = takeWhile isWs line"

text \<open>\<open>line.replace(/\t/g, ' '.repeat(indentSize))\<close>.\<close>

definition replaceTabs :: "nat \<Rightarrow> string \<Rightarrow> string" where
  "replaceTabs indentSz line = concat (map (\<lambda>c. if c = TAB then spaces indentSz else [c]) line)"

text \<open>The class \<open>[a-zA-Z0-9_\/:.@=+-]\<close>.\<close>

definition isValueChar :: "char \<Rightarrow> bool" where
  "isValueChar c = (isAlnum c \<or> c \<in> set ''_/:.@=+-'')"

text \<open>In the patterns below neighbouring parts match disjoint classes of characters, so
  each greedy part takes the longest run of its class and there is one way to match.\<close>

text \<open>\<open>/^(\s*)([a-zA-Z0-9_-]+)\s+([a-zA-Z0-9_\/:.@=+-]+)$/\<close>: indent, key and value.\<close>

definition matchKeyValue :: "string \<Rightarrow> (string \<times> string \<times> string) option" where
  "matchKeyValue line =
     (let indent = takeWhile isWs line; r1 = dropWhile isWs line;
          key = takeWhile isKeyChar r1; r2 = dropWhile isKeyChar r1;
          gap = takeWhile isWs r2; val = dropWhile isWs r2
      in if key \<noteq> [] \<and> gap \<noteq> [] \<and> val \<noteq> [] \<and> list_all isValueChar val
         then Some (indent, key, val) else None)"

text \<open>\<open>/^\s*[a-zA-Z0-9_-]+:\s/\<close>.\<close>

definition matchKeyColonSpace :: "string \<Rightarrow> bool" where
  "matchKeyColonSpace line =
     (let r1 = dropWhile isWs line;
          key = takeWhile isKeyChar r1; r2 = dropWhile isKeyChar r1
      in key \<noteq> [] \<and> (case r2 of c # d # _ \<Rightarrow> c = CHR '':'' \<and> isWs d | _ \<Rightarrow> False))"

text \<open>\<open>/^(\s*)-\s+([A-Z0-9_]+)$/\<close>: indent and key.\<close>

definition matchOrphaned :: "string \<Rightarrow> (string \<times> string) option" where
  "matchOrphaned line =
     (let indent = takeWhile isWs line; r1 = dropWhile isWs line
      in case r1 of
           [] \<Rightarrow> None
         | c # r2 \<Rightarrow>
             (let gap = takeWhile isWs r2; key = dropWhile isWs r2
              in if c = CHR ''-'' \<and> gap \<noteq> [] \<and> key \<noteq> []
                    \<and> list_all (\<lambda>d. isUpper d \<or> isDigit d \<or> d = CHR ''_'') key
                 then Some (indent, key) else None))"

text \<open>\<open>/^-\s+([a-zA-Z0-9_-]+)$/\<close>: the key.\<close>

definition matchListKey :: "string \<Rightarrow> string option" where
  "matchListKey s =
     (case s of
        [] \<Rightarrow> None
      | c # r \<Rightarrow>
          (let gap = takeWhile isWs r; key = dropWhile isWs r
           in if c = CHR ''-'' \<and> gap \<noteq> [] \<and> key \<noteq> [] \<and> list_all isKeyChar key
              then Some key else None))"

text \<open>\<open>/^[a-zA-Z0-9_-]+:/\<close>.\<close>

definition startsWithKeyColon :: "string \<Rightarrow> bool" where
  "startsWithKeyColon s =
     (takeWhile isKeyChar s \<noteq> [] \<and> startsWith (dropWhile isKeyChar s) '':'')"

text \<open>\<open>line.replace(/^(\s*)([^:\s]+):(?!\s)([^#\s].*)/, '$1$2: $3')\<close>: a blank is put after
  the colon that ends the first word when a character other than white space and \<open>#\<close>
  follows it.  The match ends before the first line terminator, and what comes after
  the match stays.\<close>

definition colonSpaceFix :: "string \<Rightarrow> string" where
  "colonSpaceFix line =
     (let g1 = takeWhile isWs line; r1 = dropWhile isWs line;
          g2 = takeWhile (\<lambda>c. c \<noteq> CHR '':'' \<and> \<not> isWs c) r1;
          r2 = dropWhile (\<lambda>c. c \<noteq> CHR '':'' \<and> \<not> isWs c) r1
      in case r2 of
           c # d # r3 \<Rightarrow>
             if g2 \<noteq> [] \<and> c = CHR '':'' \<and> \<not> isWs d \<and> d \<noteq> CHR ''#''
             then g1 @ g2 @ '': '' @ (d # r3) else line
         | _ \<Rightarrow> line)"

text \<open>\<open>/^(\s*)-\s+([a-zA-Z0-9_-]+)\s+(.+)$/\<close>: indent, key and value.  The value is what
  follows the white space after the key; were the line to end in white space, the value
  would be its last character.\<close>

definition matchListItem :: "string \<Rightarrow> (string \<times> string \<times> string) option" where
  "matchListItem line =
     (let indent = takeWhile isWs line; r1 = dropWhile isWs line
      in case r1 of
           [] \<Rightarrow> None
         | c # r2 \<Rightarrow>
             (let gap1 = takeWhile isWs r2; r3 = dropWhile isWs r2;
                  key = takeWhile isKeyChar r3; r4 = dropWhile isKeyChar r3;
                  gap2 = takeWhile isWs r4; val = dropWhile isWs r4
              in if c = CHR ''-'' \<and> gap1 \<noteq> [] \<and> key \<noteq> [] \<and> gap2 \<noteq> [] then
                   (if val \<noteq> [] then
                      (if list_all isDot val then Some (indent, key, val) else None)
                    else if length gap2 \<ge> 2 \<and> isDot (last gap2)
                      then Some (indent, key, [last gap2]) else None)
                 else None))"

text \<open>\<open>/^(\s*)([a-zA-Z0-9_-]+):/\<close>: indent and key.\<close>

definition matchKeyPrefix :: "string \<Rightarrow> (string \<times> string) option" where
  "matchKeyPrefix line =
     (let indent = takeWhile isWs line; r1 = dropWhile isWs line;
          key = takeWhile isKeyChar r1; r2 = dropWhile isKeyChar r1
      in if key \<noteq> [] \<and> startsWith r2 '':'' then Some (indent, key) else None)"

text \<open>\<open>/^[ -]*([a-zA-Z0-9_-]+):/\<close>: the key.  The text before the first colon is a run of
  blanks and dashes followed by the key; when it holds nothing but blanks and dashes the
  key is its last dash.\<close>

definition matchKeyExtract :: "string \<Rightarrow> string option" where
  "matchKeyExtract line =
     (if \<not> includesStr line '':'' then None
      else (let pre = takeWhile (\<lambda>c. c \<noteq> CHR '':'') line;
                key = dropWhile (\<lambda>c. c = CHR '' '' \<or> c = CHR ''-'') pre
            in if key \<noteq> [] then (if list_all isKeyChar key then Some key else None)
               else if pre \<noteq> [] \<and> last pre = CHR ''-'' then Some ''-''
               else None))"

definition countChar :: "char \<Rightarrow> string \<Rightarrow> nat" where
  "countChar c s = length (filter (\<lambda>d. d = c) s)"

section \<open>The three-phase fixer: phase 1\<close>

datatype ChangeType = INDENT | COLON | STRUCTURE | LIST | KEY_FIX | QUOTE | DUPLICATE | NUMERIC

record FixChange =
  fc_type :: ChangeType
  fc_line :: nat
  fc_original :: string
  fc_fixed :: string
  fc_reason :: string
  fc_severity :: LineSeverity

text \<open>The variables of \<open>phase1_syntaxNormalization\<close> that live across the lines.
  \<open>seenKeys\<close> maps a column to the keys seen there.\<close>

record Phase1State =
  normalizedLines :: "string list"
  changes :: "FixChange list"
  p1_inBlockScalar :: bool
  inConfigMapData :: bool
  configMapIndent :: int
  seenKeys :: "(nat \<times> string list) list"
  lastIndent :: int

definition initialPhase1State :: Phase1State where
  "initialPhase1State = \<lparr>normalizedLines = [], changes = [], p1_inBlockScalar = False,
     inConfigMapData = False, configMapIndent = 0, seenKeys = [], lastIndent = 0\<rparr>"

text \<open>\<open>lines[i]?.includes(s)\<close> for an index that may be negative.\<close>

definition lineIncludes :: "string list \<Rightarrow> int \<Rightarrow> string \<Rightarrow> bool" where
  "lineIncludes lines i s = (0 \<le> i \<and> i < int (length lines) \<and> includesStr (lines ! nat i) s)"

text \<open>The steps of the loop body.  Each one takes the line as it stands and returns the
  line and the changes it records.\<close>

text \<open>1. Tabs to spaces.\<close>

definition stepTabs :: "nat \<Rightarrow> nat \<Rightarrow> string \<Rightarrow> string \<Rightarrow> string \<times> FixChange list" where
  "stepTabs indentSz i orig line =
     (if includesStr line [TAB] then
        (let line1 = replaceTabs indentSz line
         in (line1, [\<lparr>fc_type = INDENT, fc_line = i + 1, fc_original = orig, fc_fixed = line1,
                      fc_reason = ''Converted tabs to spaces'', fc_severity = warning\<rparr>]))
      else (line, []))"

text \<open>FIX 6: the nesting of the data of a ConfigMap.  The result is the line, the changes
  and the two variables \<open>inConfigMapData\<close> and \<open>configMapIndent\<close>.\<close>

definition stepConfigMap ::
  "nat \<Rightarrow> string list \<Rightarrow> nat \<Rightarrow> string \<Rightarrow> string \<Rightarrow> string \<Rightarrow> bool \<Rightarrow> int
     \<Rightarrow> (string \<times> FixChange list) \<times> bool \<times> int" where
  "stepConfigMap indentSz lines i orig trimmed line inData dataIndent =
     (if trimmed = ''data:''
         \<and> (lineIncludes lines (int i - 1) ''ConfigMap'' \<or> lineIncludes lines (int i - 2) ''ConfigMap'')
      then ((line, []), True, searchNonWs line)
      else if inData then
        (if startsWith trimmed ''---'' \<or> (searchNonWs line \<le> dataIndent \<and> trimmed \<noteq> [])
         then ((line, []), False, dataIndent)
         else (let currentIndent = searchNonWs line in
               if currentIndent \<le> dataIndent then
                 (let line1 = spaces (nat (dataIndent + int indentSz)) @ trimmed
                  in ((line1, [\<lparr>fc_type = INDENT, fc_line = i + 1, fc_original = orig,
                                 fc_fixed = line1, fc_reason = ''Fixed ConfigMap data nesting'',
                                 fc_severity = error\<rparr>]), inData, dataIndent))
               else ((line, []), inData, dataIndent)))
      else ((line, []), inData, dataIndent))"

text \<open>FIX 4: under-indentation after a list item that opens a mapping.\<close>

definition stepUnderIndent ::
  "string list \<Rightarrow> nat \<Rightarrow> string \<Rightarrow> string \<Rightarrow> string \<Rightarrow> string \<times> FixChange list" where
  "stepUnderIndent normalized i orig trimmed line =
     (if length normalized > 0 then
        (let prevLine = last normalized; prevTrimmed = trim prevLine in
         if startsWith prevTrimmed ''- '' \<and> includesStr prevTrimmed '':'' then
           (let prevDashPos = (case indexOf prevLine ''-'' of None \<Rightarrow> - 1 | Some p \<Rightarrow> int p);
                currentIndent = searchNonWs line;
                expectedIndent = prevDashPos + 2
            in if includesStr trimmed '':'' \<and> currentIndent < expectedIndent
                  \<and> currentIndent > prevDashPos then
                 (let line1 = spaces (nat expectedIndent) @ trimmed
                  in (line1, [\<lparr>fc_type = INDENT, fc_line = i + 1, fc_original = orig,
                               fc_fixed = line1,
                               fc_reason = ''Fixed under-indentation relative to list item'',
                               fc_severity = error\<rparr>]))
               else (line, []))
         else (line, []))
      else (line, []))"

text \<open>FIX 1: a missing colon in \<open>key value\<close>.\<close>

definition stepKeyValue :: "nat \<Rightarrow> string \<Rightarrow> string \<Rightarrow> string \<times> FixChange list" where
  "stepKeyValue i orig line =
     (case matchKeyValue line of
        Some (indent, key, val) \<Rightarrow>
          if \<not> startsWith (trim line) ''-'' \<and> \<not> matchKeyColonSpace line then
            (let line1 = indent @ key @ '': '' @ val
             in (line1, [\<lparr>fc_type = COLON, fc_line = i + 1, fc_original = orig,
                          fc_fixed = line1,
                          fc_reason = ''Added missing colon to \"'' @ key @ ''\"'',
                          fc_severity = critical\<rparr>]))
          else (line, [])
      | None \<Rightarrow> (line, []))"

text \<open>FIX 3: an orphaned list item followed by \<open>value:\<close>.\<close>

definition stepOrphaned :: "string list \<Rightarrow> nat \<Rightarrow> string \<Rightarrow> string \<Rightarrow> string \<times> FixChange list" where
  "stepOrphaned lines i orig line =
     (case matchOrphaned line of
        Some (indent, key) \<Rightarrow>
          if i + 1 < length lines \<and> startsWith (trim (lines ! (i + 1))) ''value:'' then
            (let line1 = indent @ ''- name: '' @ key
             in (line1, [\<lparr>fc_type = STRUCTURE, fc_line = i + 1, fc_original = orig,
                          fc_fixed = line1,
                          fc_reason = ''Fixed orphaned list item \"'' @ key @ ''\"'',
                          fc_severity = error\<rparr>]))
          else (line, [])
      | None \<Rightarrow> (line, []))"

text \<open>FIX 7: a list item that is one of seven parent keys without its colon.\<close>

definition stepListKey :: "nat \<Rightarrow> string \<Rightarrow> string \<Rightarrow> string \<Rightarrow> string \<times> FixChange list" where
  "stepListKey i orig currentTrimmed line =
     (if startsWith currentTrimmed ''- '' \<and> \<not> includesStr currentTrimmed '':'' then
        (case matchListKey currentTrimmed of
           Some key \<Rightarrow>
             if key \<in> set [''metadata'', ''spec'', ''accessModes'', ''volumeMounts'', ''resources'',
                            ''requests'', ''limits''] then
               (let line1 = leadingWs line @ ''- '' @ key @ '':''
                in (line1, [\<lparr>fc_type = COLON, fc_line = i + 1, fc_original = orig,
                             fc_fixed = line1,
                             fc_reason = ''Added missing colon to list item \"'' @ key @ ''\"'',
                             fc_severity = critical\<rparr>]))
             else (line, [])
         | None \<Rightarrow> (line, []))
      else (line, []))"

text \<open>3. A missing colon after a known key.  \<open>keyValueMatch\<close> says whether the pattern of
  FIX 1 matched.\<close>

definition stepKnownKey :: "nat \<Rightarrow> string \<Rightarrow> bool \<Rightarrow> string \<Rightarrow> string \<Rightarrow> string \<times> FixChange list" where
  "stepKnownKey i orig keyValueMatch currentTrimmed line =
     (if \<not> startsWithKeyColon currentTrimmed \<and> \<not> startsWith currentTrimmed ''-''
         \<and> \<not> startsWith currentTrimmed ''#'' then
        (let parts = splitWs currentTrimmed;
             potentialKey = hd parts;
             correctKey = (case orElse (aliasLookup (toLowerCase potentialKey)) (aliasLookup potentialKey) of
                             Some k \<Rightarrow> k | None \<Rightarrow> potentialKey)
         in if correctKey \<in> set KNOWN_K8S_KEYS \<or> potentialKey \<in> set KNOWN_K8S_KEYS then
              (if length parts = 1 then
                 (let line1 = leadingWs line @ correctKey @ '':''
                  in (line1, [\<lparr>fc_type = COLON, fc_line = i + 1, fc_original = orig,
                               fc_fixed = line1,
                               fc_reason = ''Added missing colon to \"'' @ correctKey @ ''\"'',
                               fc_severity = critical\<rparr>]))
               else if \<not> keyValueMatch then
                 (let line1 = leadingWs line @ correctKey @ '': '' @ joinWith '' '' (tl parts)
                  in (line1, [\<lparr>fc_type = COLON, fc_line = i + 1, fc_original = orig,
                               fc_fixed = line1,
                               fc_reason = ''Added missing colon to \"'' @ correctKey @ ''\"'',
                               fc_severity = critical\<rparr>]))
               else (line, []))
            else (line, []))
      else (line, []))"

text \<open>4. A blank after the colon.\<close>

definition stepColonSpace :: "nat \<Rightarrow> string \<Rightarrow> string \<Rightarrow> string \<times> FixChange list" where
  "stepColonSpace i updatedTrimmed line =
     (if includesStr updatedTrimmed '':'' \<and> \<not> includesStr updatedTrimmed ''://'' then
        (let fixedLine = colonSpaceFix line
         in if fixedLine \<noteq> line then
              (fixedLine, [\<lparr>fc_type = COLON, fc_line = i + 1, fc_original = line,
                            fc_fixed = fixedLine, fc_reason = ''Added space after colon'',
                            fc_severity = info\<rparr>])
            else (line, []))
      else (line, []))"

text \<open>5. A blank after the list marker.\<close>

definition stepListSpace :: "nat \<Rightarrow> string \<Rightarrow> string \<Rightarrow> string \<Rightarrow> string \<times> FixChange list" where
  "stepListSpace i orig updatedTrimmed line =
     (if startsWith updatedTrimmed ''-'' \<and> length updatedTrimmed > 1
         \<and> updatedTrimmed ! 1 \<noteq> CHR '' '' \<and> updatedTrimmed ! 1 \<noteq> CHR ''-'' then
        (let line1 = leadingWs line @ ''- '' @ substringFrom updatedTrimmed 1
         in (line1, [\<lparr>fc_type = LIST, fc_line = i + 1, fc_original = orig, fc_fixed = line1,
                      fc_reason = ''Added space after list marker'', fc_severity = info\<rparr>]))
      else (line, []))"

text \<open>6. A missing colon in a list item with a known key.\<close>

definition stepListItem :: "nat \<Rightarrow> string \<Rightarrow> string \<Rightarrow> string \<times> FixChange list" where
  "stepListItem i orig line =
     (case matchListItem line of
        Some (indent, key, val) \<Rightarrow>
          if \<not> includesStr line '':'' then
            (let correctKey = (case orElse (aliasLookup (toLowerCase key)) (aliasLookup key) of
                                 Some k \<Rightarrow> k | None \<Rightarrow> key)
             in if correctKey \<in> set KNOWN_K8S_KEYS \<or> key \<in> set KNOWN_K8S_KEYS then
                  (let line1 = indent @ ''- '' @ correctKey @ '': '' @ val
                   in (line1, [\<lparr>fc_type = COLON, fc_line = i + 1, fc_original = orig,
                                fc_fixed = line1,
                                fc_reason = ''Added missing colon in list item \"'' @ correctKey @ ''\"'',
                                fc_severity = critical\<rparr>]))
                else (line, []))
          else (line, [])
      | None \<Rightarrow> (line, []))"

text \<open>7. Typos of keys.  The line starts with the indent, the key and a colon, and that
  is the occurrence \<open>replace\<close> rewrites.\<close>

definition stepKeyTypo :: "nat \<Rightarrow> string \<Rightarrow> string \<Rightarrow> string \<times> FixChange list" where
  "stepKeyTypo i orig line =
     (case matchKeyPrefix line of
        Some (indent, key) \<Rightarrow>
          (case orElse (aliasLookup (toLowerCase key)) (aliasLookup key) of
             Some correctKey \<Rightarrow>
               if correctKey \<noteq> [] \<and> correctKey \<noteq> key then
                 (let line1 = indent @ correctKey @ '':''
                               @ drop (length indent + length key + 1) line
                  in (line1, [\<lparr>fc_type = KEY_FIX, fc_line = i + 1, fc_original = orig,
                               fc_fixed = line1,
                               fc_reason = ''Fixed typo \"'' @ key @ ''\" -> \"'' @ correctKey @ ''\"'',
                               fc_severity = warning\<rparr>]))
               else (line, [])
           | None \<Rightarrow> (line, []))
      | None \<Rightarrow> (line, []))"

text \<open>8. Quotes that are not closed.  Both counts are taken before a quote is added.\<close>

definition stepQuotes :: "nat \<Rightarrow> string \<Rightarrow> string \<Rightarrow> string \<times> FixChange list" where
  "stepQuotes i orig line =
     (let doubleQuotes = countChar (CHR 0x22) line;
          singleQuotes = countChar (CHR 0x27) line;
          r1 = (if doubleQuotes mod 2 \<noteq> 0 then
                  (line @ [CHR 0x22],
                   [\<lparr>fc_type = QUOTE, fc_line = i + 1, fc_original = orig,
                     fc_fixed = line @ [CHR 0x22],
                     fc_reason = ''Closed unclosed double quote'', fc_severity = critical\<rparr>])
                else (line, []))
      in if singleQuotes mod 2 \<noteq> 0 then
           (fst r1 @ [CHR 0x27],
            snd r1 @ [\<lparr>fc_type = QUOTE, fc_line = i + 1, fc_original = orig,
                       fc_fixed = fst r1 @ [CHR 0x27],
                       fc_reason = ''Closed unclosed single quote'', fc_severity = critical\<rparr>])
         else r1)"

text \<open>A step after the other: the line goes on, the changes add up.\<close>

definition andThen ::
  "string \<times> FixChange list \<Rightarrow> (string \<Rightarrow> string \<times> FixChange list) \<Rightarrow> string \<times> FixChange list" where
  "andThen r f = (case f (fst r) of (line, cs) \<Rightarrow> (line, snd r @ cs))"

text \<open>FIX 5: duplicate keys.  The result is \<open>None\<close> when the line is dropped as a
  duplicate (with the key), and else the state of \<open>seenKeys\<close> and \<open>lastIndent\<close>.\<close>

definition seenAt :: "(nat \<times> string list) list \<Rightarrow> nat \<Rightarrow> string list" where
  "seenAt seen level = (case map_of seen level of None \<Rightarrow> [] | Some ks \<Rightarrow> ks)"

definition addSeen :: "(nat \<times> string list) list \<Rightarrow> nat \<Rightarrow> string \<Rightarrow> (nat \<times> string list) list" where
  "addSeen seen level key =
     (if level \<in> set (map fst seen)
      then map (\<lambda>(l, ks). if l = level then (l, ks @ [key]) else (l, ks)) seen
      else seen @ [(level, [key])])"

datatype DuplicateCheck =
  Separator
  | Duplicate string "(nat \<times> string list) list"
  | Kept "(nat \<times> string list) list" int

definition checkDuplicate ::
  "string \<Rightarrow> string \<Rightarrow> (nat \<times> string list) list \<Rightarrow> int \<Rightarrow> DuplicateCheck" where
  "checkDuplicate updatedTrimmed line seen lastInd =
     (let currentIndent = searchNonWs line in
      if currentIndent \<noteq> - 1 then
        (let seen1 = (if currentIndent < lastInd
                      then filter (\<lambda>(l, ks). \<not> int l > currentIndent) seen else seen);
             seen2 = (if startsWith updatedTrimmed ''- ''
                      then filter (\<lambda>(l, ks). \<not> int l \<ge> currentIndent) seen1 else seen1)
         in if startsWith line ''---'' then Separator
            else (case matchKeyExtract line of
                    Some key \<Rightarrow>
                      (let keyStart = (case indexOf line key of None \<Rightarrow> 0 | Some p \<Rightarrow> p) in
                       if key \<in> set (seenAt seen2 keyStart) then Duplicate key seen2
                       else Kept (addSeen seen2 keyStart key) currentIndent)
                  | None \<Rightarrow> Kept seen2 currentIndent))
      else Kept seen lastInd)"

text \<open>The body of the loop for the line at position \<open>i\<close>.\<close>

definition phase1Step :: "nat \<Rightarrow> string list \<Rightarrow> nat \<Rightarrow> Phase1State \<Rightarrow> Phase1State" where
  "phase1Step indentSz lines i st =
     (let orig = lines ! i;
          trimmed = trim orig;
          inBlock = (if endsWith trimmed ''|'' \<or> endsWith trimmed ''>'' then True
                     else if p1_inBlockScalar st \<and> trimmed \<noteq> [] \<and> \<not> startsWith orig '' ''
                       then False
                     else p1_inBlockScalar st);
          st1 = st\<lparr>p1_inBlockScalar := inBlock\<rparr>
      in if inBlock \<and> i > 0 then st1\<lparr>normalizedLines := normalizedLines st1 @ [orig]\<rparr>
         else if trimmed = [] \<or> startsWith trimmed ''#''
           then st1\<lparr>normalizedLines := normalizedLines st1 @ [orig]\<rparr>
         else
           (let r1 = stepTabs indentSz i orig orig;
                r2 = (trimEnd (fst r1), snd r1);
                cm = stepConfigMap indentSz lines i orig trimmed (fst r2)
                       (inConfigMapData st1) (configMapIndent st1);
                r3 = (fst (fst cm), snd r2 @ snd (fst cm));
                st2 = st1\<lparr>inConfigMapData := fst (snd cm), configMapIndent := snd (snd cm)\<rparr>;
                r4 = andThen r3 (stepUnderIndent (normalizedLines st2) i orig trimmed);
                keyValueMatch = (matchKeyValue (fst r4) \<noteq> None);
                r5 = andThen r4 (stepKeyValue i orig);
                r6 = andThen r5 (stepOrphaned lines i orig);
                r7 = andThen r6 (stepListKey i orig (trim (fst r6)));
                r8 = andThen r7 (stepKnownKey i orig keyValueMatch (trim (fst r7)));
                updatedTrimmed = trim (fst r8);
                r9 = andThen r8 (stepColonSpace i updatedTrimmed);
                r10 = andThen r9 (stepListSpace i orig updatedTrimmed);
                r11 = andThen r10 (stepListItem i orig);
                r12 = andThen r11 (stepKeyTypo i orig);
                r13 = andThen r12 (stepQuotes i orig);
                line = fst r13;
                st3 = st2\<lparr>changes := changes st2 @ snd r13\<rparr>
            in case checkDuplicate updatedTrimmed line (seenKeys st3) (lastIndent st3) of
                 Separator \<Rightarrow>
                   st3\<lparr>seenKeys := [], lastIndent := 0,
                       normalizedLines := normalizedLines st3 @ [line]\<rparr>
               | Duplicate key seen \<Rightarrow>
                   st3\<lparr>seenKeys := seen,
                       changes := changes st3 @
                         [\<lparr>fc_type = DUPLICATE, fc_line = i + 1, fc_original = orig,
                           fc_fixed = [], fc_reason = ''Removed duplicate key \"'' @ key @ ''\"'',
                           fc_severity = error\<rparr>]\<rparr>
               | Kept seen lastInd \<Rightarrow>
                   st3\<lparr>seenKeys := seen, lastIndent := lastInd,
                       normalizedLines := normalizedLines st3 @ [line]\<rparr>))"

definition phase1_syntaxNormalization :: "nat \<Rightarrow> string \<Rightarrow> string list \<times> FixChange list" where
  "phase1_syntaxNormalization indentSz content =
     (let lines = splitLines content;
          st = fold (phase1Step indentSz lines) [0..<length lines] initialPhase1State
      in (normalizedLines st, changes st))"

section \<open>The three-phase fixer: phases 2 and 3\<close>

text \<open>The values the parser returns.  A mapping keeps its keys in order.  An array is an
  object too and can take named properties, which \<open>yaml.dump\<close> does not print; they are
  the second component of \<open>YSeq\<close>.  Values are trees: the sharing that anchors and aliases
  introduce, and the objects the parser builds for dates and binary data, are left out.\<close>

datatype YamlValue =
  YNull
  | YBool bool
  | YNum real
  | YNaN
  | YStr string
  | YSeq "YamlValue list" "(string \<times> YamlValue) list"
  | YMap "(string \<times> YamlValue) list"

text \<open>\<open>yaml.loadAll\<close> and \<open>yaml.dump\<close> are parameters of the model; the first argument of
  the latter is the indent.\<close>

type_synonym YamlLoadAll = "string \<Rightarrow> YAMLException + YamlValue list"

type_synonym YamlDump = "nat \<Rightarrow> YamlValue \<Rightarrow> string"

datatype ErrorCode = YAML_PARSE_ERROR | ChangeCode ChangeType

record ValidationError =
  ve_line :: nat
  ve_column :: "nat option"
  ve_message :: string
  ve_severity :: LineSeverity
  ve_code :: ErrorCode
  ve_fixable :: bool

text \<open>\<open>phase2_parseValidation\<close>: the errors and, when the text parses, the parsed value (the
  document itself when there is one document, the array of the documents otherwise).\<close>

definition phase2_parseValidation :: "YamlLoadAll \<Rightarrow> string \<Rightarrow> ValidationError list \<times> YamlValue option" where
  "phase2_parseValidation yamlLoadAll content =
     (case yamlLoadAll content of
        Inr documents \<Rightarrow>
          ([], Some (if length documents = 1 then hd documents else YSeq documents []))
      | Inl e \<Rightarrow>
          ([\<lparr>ve_line = (case mark e of None \<Rightarrow> 0 | Some (l, c) \<Rightarrow> l + 1),
             ve_column = Some (case mark e of None \<Rightarrow> 0 | Some (l, c) \<Rightarrow> c + 1),
             ve_message = message e, ve_severity = critical, ve_code = YAML_PARSE_ERROR,
             ve_fixable = False\<rparr>], None))"

text \<open>\<open>!isNaN(Number(s))\<close> for a trimmed text that is not empty: the numeric literals of a
  string, that is a signed decimal literal or \<open>Infinity\<close>, or a binary, octal or
  hexadecimal integer.\<close>

definition isExponentOpt :: "string \<Rightarrow> bool" where
  "isExponentOpt r =
     (case r of
        [] \<Rightarrow> True
      | e # r1 \<Rightarrow>
          (e = CHR ''e'' \<or> e = CHR ''E'')
          \<and> (let ds = (case r1 of
                         [] \<Rightarrow> []
                       | s # r2 \<Rightarrow> if s = CHR ''+'' \<or> s = CHR ''-'' then r2 else r1)
             in ds \<noteq> [] \<and> list_all isDigit ds))"

definition isUnsignedDecimal :: "string \<Rightarrow> bool" where
  "isUnsignedDecimal s =
     (s = ''Infinity''
      \<or> (let d1 = takeWhile isDigit s; r1 = dropWhile isDigit s
         in case r1 of
              [] \<Rightarrow> d1 \<noteq> []
            | c # r2 \<Rightarrow>
                if c = CHR ''.'' then
                  (let d2 = takeWhile isDigit r2; r3 = dropWhile isDigit r2
                   in (d1 \<noteq> [] \<or> d2 \<noteq> []) \<and> isExponentOpt r3)
                else d1 \<noteq> [] \<and> isExponentOpt r1))"

definition isHexDigit :: "char \<Rightarrow> bool" where
  "isHexDigit c = (isDigit c \<or> c \<in> set ''abcdefABCDEF'')"

definition isNumericString :: "string \<Rightarrow> bool" where
  "isNumericString s =
     (case s of
        [] \<Rightarrow> True
      | c # r \<Rightarrow>
          if c = CHR ''+'' \<or> c = CHR ''-'' then isUnsignedDecimal r
          else if c = CHR ''0'' \<and> r \<noteq> [] \<and> hd r \<in> set ''xX''
            then tl r \<noteq> [] \<and> list_all isHexDigit (tl r)
          else if c = CHR ''0'' \<and> r \<noteq> [] \<and> hd r \<in> set ''oO''
            then tl r \<noteq> [] \<and> list_all (\<lambda>d. d \<in> set ''01234567'') (tl r)
          else if c = CHR ''0'' \<and> r \<noteq> [] \<and> hd r \<in> set ''bB''
            then tl r \<noteq> [] \<and> list_all (\<lambda>d. d \<in> set ''01'') (tl r)
          else isUnsignedDecimal s)"

definition WORD_TO_NUM :: "(string \<times> string) list" where
  "WORD_TO_NUM = [(''one'', ''1''), (''two'', ''2''), (''three'', ''3''), (''four'', ''4''),
     (''five'', ''5''), (''six'', ''6''), (''seven'', ''7''), (''eight'', ''8''), (''nine'', ''9''),
     (''ten'', ''10'')]"

text \<open>\<open>/^([a-zA-Z0-9_-]+):\s*(.+)$/\<close>: key and value.\<close>

definition matchKeyColonValue :: "string \<Rightarrow> (string \<times> string) option" where
  "matchKeyColonValue s =
     (let key = takeWhile isKeyChar s; r1 = dropWhile isKeyChar s
      in case r1 of
           [] \<Rightarrow> None
         | c # r2 \<Rightarrow>
             (let val = dropWhile isWs r2
              in if key \<noteq> [] \<and> c = CHR '':'' \<and> val \<noteq> [] \<and> list_all isDot val
                 then Some (key, val) else None))"

text \<open>The body of the loop of \<open>phase3_semanticFixes\<close> for the line at position \<open>i\<close>: the
  line and the changes.\<close>

definition phase3Line :: "nat \<Rightarrow> string \<Rightarrow> string \<times> FixChange list" where
  "phase3Line i line =
     (let trimmed = trim line; indent = length (leadingWs line) in
      if trimmed = [] \<or> startsWith trimmed ''#'' then (line, [])
      else (case matchKeyColonValue trimmed of
              None \<Rightarrow> (line, [])
            | Some (key, val) \<Rightarrow>
                if key \<in> set NUMERIC_FIELDS then
                  (let cleanValue = trim (filter (\<lambda>c. c \<noteq> CHR 0x27 \<and> c \<noteq> CHR 0x22) val);
                       lowerValue = toLowerCase cleanValue
                   in if isNumericString cleanValue \<and> cleanValue \<noteq> [] then
                        (if includesStr val [CHR 0x22] \<or> includesStr val [CHR 0x27] then
                           (let line1 = spaces indent @ key @ '': '' @ cleanValue
                            in (line1, [\<lparr>fc_type = NUMERIC, fc_line = i + 1, fc_original = line,
                                         fc_fixed = line1,
                                         fc_reason = ''Converted string \"'' @ val @ ''\" to number'',
                                         fc_severity = info\<rparr>]))
                         else (line, []))
                      else (case orElse (map_of WORD_TO_NUM lowerValue) (inheritedProperty lowerValue) of
                              Some n \<Rightarrow>
                                (let line1 = spaces indent @ key @ '': '' @ n
                                 in (line1, [\<lparr>fc_type = NUMERIC, fc_line = i + 1,
                                              fc_original = line, fc_fixed = line1,
                                              fc_reason = ''Converted word \"'' @ val @ ''\" to number'',
                                              fc_severity = warning\<rparr>]))
                            | None \<Rightarrow> (line, [])))
                else (line, [])))"

definition phase3_semanticFixes :: "string list \<Rightarrow> string list \<times> FixChange list" where
  "phase3_semanticFixes lines =
     (let rs = map (\<lambda>i. phase3Line i (lines ! i)) [0..<length lines]
      in (map fst rs, concat (map snd rs)))"

section \<open>The three-phase fixer: structural reorganization\<close>

text \<open>The module is an ECMAScript module and runs in strict mode, where an assignment to
  a property of a string, a number or a boolean throws a \<open>TypeError\<close>, as one to a property
  of \<open>null\<close> does.\<close>

datatype JsError = TypeError string

definition bindE :: "JsError + 'a \<Rightarrow> ('a \<Rightarrow> JsError + 'b) \<Rightarrow> JsError + 'b" where
  "bindE r f = (case r of Inl e \<Rightarrow> Inl e | Inr v \<Rightarrow> f v)"

text \<open>Replaces the value of a key where it stands, or adds the key at the end.\<close>

fun assign :: "(string \<times> 'v) list \<Rightarrow> string \<Rightarrow> 'v \<Rightarrow> (string \<times> 'v) list" where
  "assign [] k v = [(k, v)]"
| "assign ((k', v') # kvs) k v = (if k' = k then (k, v) # kvs else (k', v') # assign kvs k v)"

text \<open>\<open>v[k]\<close> (\<open>None\<close> for \<open>undefined\<close>), \<open>v[k] = x\<close> and \<open>delete v[k]\<close>.  The keys that the
  fixer reads name no property of a string, of a number or of an array itself.\<close>

definition getProp :: "YamlValue \<Rightarrow> string \<Rightarrow> YamlValue option" where
  "getProp v k =
     (case v of
        YMap kvs \<Rightarrow> map_of kvs k
      | YSeq items props \<Rightarrow> map_of props k
      | _ \<Rightarrow> None)"

definition setProp :: "YamlValue \<Rightarrow> string \<Rightarrow> YamlValue \<Rightarrow> JsError + YamlValue" where
  "setProp v k x =
     (case v of
        YMap kvs \<Rightarrow> Inr (YMap (assign kvs k x))
      | YSeq items props \<Rightarrow> Inr (YSeq items (assign props k x))
      | YNull \<Rightarrow> Inl (TypeError (''Cannot set properties of null (setting \"'' @ k @ ''\")''))
      | _ \<Rightarrow> Inl (TypeError (''Cannot create property \"'' @ k @ ''\"'')))"

definition deleteProp :: "YamlValue \<Rightarrow> string \<Rightarrow> YamlValue" where
  "deleteProp v k =
     (case v of
        YMap kvs \<Rightarrow> YMap (filter (\<lambda>(k', x). k' \<noteq> k) kvs)
      | YSeq items props \<Rightarrow> YSeq items (filter (\<lambda>(k', x). k' \<noteq> k) props)
      | _ \<Rightarrow> v)"

text \<open>A value in a condition.\<close>

definition truthyValue :: "YamlValue option \<Rightarrow> bool" where
  "truthyValue v =
     (case v of
        None \<Rightarrow> False
      | Some YNull \<Rightarrow> False
      | Some (YBool b) \<Rightarrow> b
      | Some (YNum r) \<Rightarrow> r \<noteq> 0
      | Some YNaN \<Rightarrow> False
      | Some (YStr s) \<Rightarrow> s \<noteq> []
      | Some _ \<Rightarrow> True)"

text \<open>\<open>v.k1.k2 \<dots>\<close>; the source reads along a path only where the values on the way are
  truthy.\<close>

fun getPath :: "YamlValue \<Rightarrow> string list \<Rightarrow> YamlValue option" where
  "getPath v [] = Some v"
| "getPath v (k # ks) = (case getProp v k of None \<Rightarrow> None | Some c \<Rightarrow> getPath c ks)"

text \<open>\<open>v.k1.k2 \<dots> kn = x\<close>: the object at the end of the path is changed in place, which
  in the model rebuilds the values on the way.\<close>

fun setPath :: "YamlValue \<Rightarrow> string list \<Rightarrow> YamlValue \<Rightarrow> JsError + YamlValue" where
  "setPath v [] x = Inr x"
| "setPath v [k] x = setProp v k x"
| "setPath v (k # ks) x =
     (case getProp v k of
        None \<Rightarrow> Inl (TypeError ''Cannot set properties of undefined'')
      | Some c \<Rightarrow> bindE (setPath c ks x) (\<lambda>c'. setProp v k c'))"

text \<open>\<open>if (!v.k1 \<dots> kn) v.k1 \<dots> kn = x\<close>.\<close>

definition ensurePath :: "YamlValue \<Rightarrow> string list \<Rightarrow> YamlValue \<Rightarrow> JsError + YamlValue" where
  "ensurePath v ks x = (if \<not> truthyValue (getPath v ks) then setPath v ks x else Inr v)"

definition emptyTemplate :: YamlValue where
  "emptyTemplate = YMap [(''metadata'', YMap []), (''spec'', YMap [])]"

type_synonym DocState = "YamlValue \<times> string"

text \<open>1. A metadata field at the root moves under \<open>metadata\<close>.\<close>

definition moveToMetadata :: "string \<Rightarrow> DocState \<Rightarrow> JsError + DocState" where
  "moveToMetadata field st =
     (case st of (parsed, explanation) \<Rightarrow>
        (case getProp parsed field of
           None \<Rightarrow> Inr st
         | Some x \<Rightarrow>
             bindE (ensurePath parsed [''metadata''] (YMap [])) (\<lambda>p1.
             bindE (setPath p1 [''metadata'', field] x) (\<lambda>p2.
             Inr (deleteProp p2 field,
                  explanation @ ''Moved \"'' @ field @ ''\" to \"metadata.'' @ field @ ''\". '')))))"

text \<open>2. A spec field at the root moves under \<open>spec\<close>.\<close>

definition moveToSpec :: "string \<Rightarrow> DocState \<Rightarrow> JsError + DocState" where
  "moveToSpec field st =
     (case st of (parsed, explanation) \<Rightarrow>
        (case getProp parsed field of
           None \<Rightarrow> Inr st
         | Some x \<Rightarrow>
             bindE (ensurePath parsed [''spec''] (YMap [])) (\<lambda>p1.
             bindE (setPath p1 [''spec'', field] x) (\<lambda>p2.
             Inr (deleteProp p2 field,
                  explanation @ ''Moved \"'' @ field @ ''\" to \"spec.'' @ field @ ''\". '')))))"

text \<open>3. \<open>spec.template.metadata\<close> and \<open>spec.template.spec\<close> are there.\<close>

definition ensureTemplate :: "DocState \<Rightarrow> JsError + DocState" where
  "ensureTemplate st =
     (case st of (parsed, explanation) \<Rightarrow>
        if truthyValue (getProp parsed ''spec'') \<and> \<not> truthyValue (getPath parsed [''spec'', ''template'']) then
          bindE (setPath parsed [''spec'', ''template''] emptyTemplate) (\<lambda>p1.
          Inr (p1, explanation
                 @ ''Created \"spec.template.metadata\" and \"spec.template.spec\" structure. ''))
        else if truthyValue (getProp parsed ''spec'') \<and> truthyValue (getPath parsed [''spec'', ''template'']) then
          bindE (if \<not> truthyValue (getPath parsed [''spec'', ''template'', ''metadata''])
                 then bindE (setPath parsed [''spec'', ''template'', ''metadata''] (YMap [])) (\<lambda>p1.
                        Inr (p1, explanation @ ''Created \"spec.template.metadata\". ''))
                 else Inr (parsed, explanation)) (\<lambda>(p2, e2).
          if \<not> truthyValue (getPath p2 [''spec'', ''template'', ''spec''])
          then bindE (setPath p2 [''spec'', ''template'', ''spec''] (YMap [])) (\<lambda>p3.
                 Inr (p3, e2 @ ''Created \"spec.template.spec\". ''))
          else Inr (p2, e2))
        else Inr st)"

text \<open>4. A pod field at the root or under \<open>spec\<close> moves under \<open>spec.template.spec\<close>.\<close>

definition deletePath2 :: "YamlValue \<Rightarrow> string \<Rightarrow> string \<Rightarrow> JsError + YamlValue" where
  "deletePath2 v k1 k2 =
     (case getProp v k1 of
        None \<Rightarrow> Inl (TypeError ''Cannot convert undefined or null to object'')
      | Some c \<Rightarrow> setProp v k1 (deleteProp c k2))"

definition moveToPodSpec :: "string \<Rightarrow> DocState \<Rightarrow> JsError + DocState" where
  "moveToPodSpec field st =
     (case st of (parsed, explanation) \<Rightarrow>
        (case getProp parsed field of
           Some x \<Rightarrow>
             bindE (ensurePath parsed [''spec''] (YMap [])) (\<lambda>p1.
             bindE (ensurePath p1 [''spec'', ''template''] emptyTemplate) (\<lambda>p2.
             bindE (ensurePath p2 [''spec'', ''template'', ''spec''] (YMap [])) (\<lambda>p3.
             bindE (setPath p3 [''spec'', ''template'', ''spec'', field] x) (\<lambda>p4.
             Inr (deleteProp p4 field,
                  explanation @ ''Moved \"'' @ field @ ''\" from root to \"spec.template.spec.''
                    @ field @ ''\". '')))))
         | None \<Rightarrow>
             if truthyValue (getProp parsed ''spec'') \<and> getPath parsed [''spec'', field] \<noteq> None
                \<and> field \<noteq> ''selector'' then
               bindE (ensurePath parsed [''spec'', ''template''] emptyTemplate) (\<lambda>p1.
               bindE (ensurePath p1 [''spec'', ''template'', ''spec''] (YMap [])) (\<lambda>p2.
               (case getPath p2 [''spec'', field] of
                  None \<Rightarrow> Inr (p2, explanation)
                | Some x \<Rightarrow>
                    bindE (setPath p2 [''spec'', ''template'', ''spec'', field] x) (\<lambda>p3.
                    bindE (deletePath2 p3 ''spec'' field) (\<lambda>p4.
                    Inr (p4, explanation @ ''Moved \"'' @ field @ ''\" from \"spec\" to \"spec.template.spec.''
                               @ field @ ''\". ''))))))
             else Inr st))"

text \<open>5. \<open>type\<close> and \<open>ports\<close> of a Service move under \<open>spec\<close>.\<close>

definition moveServiceField :: "string \<Rightarrow> DocState \<Rightarrow> JsError + DocState" where
  "moveServiceField field st =
     (case st of (parsed, explanation) \<Rightarrow>
        (case getProp parsed field of
           None \<Rightarrow> Inr st
         | Some x \<Rightarrow>
             bindE (ensurePath parsed [''spec''] (YMap [])) (\<lambda>p1.
             bindE (setPath p1 [''spec'', field] x) (\<lambda>p2.
             Inr (deleteProp p2 field,
                  explanation @ ''Moved \"'' @ field @ ''\" to \"spec.'' @ field @ ''\". '')))))"

text \<open>\<open>fields.forEach(f)\<close> with a callback that may throw.\<close>

fun forEachE :: "('a \<Rightarrow> 's \<Rightarrow> JsError + 's) \<Rightarrow> 'a list \<Rightarrow> 's \<Rightarrow> JsError + 's" where
  "forEachE f [] st = Inr st"
| "forEachE f (x # xs) st = bindE (f x st) (forEachE f xs)"

definition isObject :: "YamlValue \<Rightarrow> bool" where
  "isObject v = (case v of YMap kvs \<Rightarrow> True | YSeq items props \<Rightarrow> True | _ \<Rightarrow> False)"

definition fixSingleDocument :: "YamlValue \<Rightarrow> JsError + DocState" where
  "fixSingleDocument parsed =
     (if \<not> isObject parsed then Inr (parsed, [])
      else
        bindE (forEachE moveToMetadata METADATA_FIELDS (parsed, [])) (\<lambda>st1.
        bindE (if getProp (fst st1) ''kind'' \<in> {Some (YStr ''Deployment''), Some (YStr ''StatefulSet''),
                                                  Some (YStr ''DaemonSet'')}
               then bindE (forEachE moveToSpec SPEC_FIELDS st1) (\<lambda>st2.
                    bindE (ensureTemplate st2) (\<lambda>st3.
                    forEachE moveToPodSpec POD_SPEC_FIELDS st3))
               else Inr st1) (\<lambda>st4.
        bindE (if getProp (fst st4) ''kind'' = Some (YStr ''Service'')
               then forEachE moveServiceField [''type'', ''ports''] st4
               else Inr st4) (\<lambda>st5.
        Inr (fst st5, trim (snd st5))))))"

text \<open>\<open>phase3b_structuralFixes\<close>: the content and the explanation.\<close>

fun fixDocuments :: "YamlValue list \<Rightarrow> string \<Rightarrow> JsError + YamlValue list \<times> string" where
  "fixDocuments [] explanation = Inr ([], explanation)"
| "fixDocuments (doc # docs) explanation =
     bindE (fixSingleDocument doc) (\<lambda>(d, e).
     bindE (fixDocuments docs (if e \<noteq> [] then explanation @ e @ '' '' else explanation)) (\<lambda>(ds, e').
     Inr (d # ds, e')))"

definition orText :: "string \<Rightarrow> string \<Rightarrow> string" where
  "orText s d = (if s \<noteq> [] then s else d)"

definition phase3b_structuralFixes :: "YamlDump \<Rightarrow> nat \<Rightarrow> YamlValue \<Rightarrow> JsError + string \<times> string" where
  "phase3b_structuralFixes yamlDump indentSz parsed =
     (case parsed of
        YSeq items props \<Rightarrow>
          bindE (fixDocuments items []) (\<lambda>(fixedDocs, explanation).
          Inr (joinWith (''---'' @ [NL]) (map (yamlDump indentSz) fixedDocs),
               orText (trim explanation) ''No structural changes needed''))
      | _ \<Rightarrow>
          bindE (fixSingleDocument parsed) (\<lambda>(doc, explanation).
          Inr (yamlDump indentSz doc, orText explanation ''No structural changes needed'')))"

section \<open>The three-phase fixer: the entry points\<close>

record FixResult =
  fr_content :: string
  fr_fixedCount :: nat
  fr_changes :: "FixChange list"
  fr_errors :: "ValidationError list"

text \<open>\<open>YAMLFixer.fix\<close>; \<open>aggressiveMode\<close> is \<open>options.aggressive || false\<close>.  The result is the
  exception that leaves \<open>fix\<close>, or what \<open>fix\<close> returns.\<close>

definition YAMLFixer_fix ::
  "YamlLoadAll \<Rightarrow> YamlDump \<Rightarrow> nat \<Rightarrow> bool \<Rightarrow> string \<Rightarrow> JsError + FixResult" where
  "YAMLFixer_fix yamlLoadAll yamlDump indentSz aggressiveMode content =
     (let phase1Result = phase1_syntaxNormalization indentSz content;
          allChanges = snd phase1Result;
          fixedContent = joinLines (fst phase1Result);
          phase2Result = phase2_parseValidation yamlLoadAll fixedContent
      in case snd phase2Result of
           None \<Rightarrow>
             Inr \<lparr>fr_content = fixedContent, fr_fixedCount = length allChanges,
                  fr_changes = allChanges, fr_errors = fst phase2Result\<rparr>
         | Some parsed \<Rightarrow>
             (let phase3Result = phase3_semanticFixes (fst phase1Result);
                  allChanges3 = allChanges @ snd phase3Result;
                  fixedContent3 = joinLines (fst phase3Result)
              in if aggressiveMode then
                   bindE (phase3b_structuralFixes yamlDump indentSz parsed) (\<lambda>(content3b, explanation).
                   (let allChanges3b =
                          (if explanation \<noteq> [] \<and> explanation \<noteq> ''No structural changes needed''
                           then allChanges3 @ [\<lparr>fc_type = STRUCTURE, fc_line = 0, fc_original = [],
                                                 fc_fixed = [], fc_reason = explanation,
                                                 fc_severity = warning\<rparr>]
                           else allChanges3)
                    in Inr \<lparr>fr_content = content3b, fr_fixedCount = length allChanges3b,
                            fr_changes = allChanges3b, fr_errors = []\<rparr>))
                 else Inr \<lparr>fr_content = fixedContent3, fr_fixedCount = length allChanges3,
                           fr_changes = allChanges3, fr_errors = []\<rparr>))"

record ValidateResult =
  va_valid :: bool
  va_errors :: "ValidationError list"

text \<open>\<open>YAMLFixer.validate\<close>; \<open>structuralIssues\<close> is always empty.\<close>

definition YAMLFixer_validate :: "YamlLoadAll \<Rightarrow> nat \<Rightarrow> string \<Rightarrow> ValidateResult" where
  "YAMLFixer_validate yamlLoadAll indentSz content =
     (let phase1Result = phase1_syntaxNormalization indentSz content;
          errs = map (\<lambda>change. \<lparr>ve_line = fc_line change, ve_column = None,
                                 ve_message = fc_reason change, ve_severity = fc_severity change,
                                 ve_code = ChangeCode (fc_type change), ve_fixable = True\<rparr>)
                   (snd phase1Result)
                 @ fst (phase2_parseValidation yamlLoadAll content)
      in \<lparr>va_valid = (length errs = 0), va_errors = errs\<rparr>)"

section \<open>Sample documents of the three-phase fixer\<close>

text \<open>A parser that accepts every text and returns the given documents, and a serializer
  that prints nothing; they stand for \<open>js-yaml\<close> on the sample documents below.\<close>

definition loadDocuments :: "YamlValue list \<Rightarrow> YamlLoadAll" where
  "loadDocuments docs s = Inr docs"

definition dumpNothing :: YamlDump where
  "dumpNothing indentSz v = []"

text \<open>A literal block scalar whose one line lacks a colon.\<close>

definition blockScalarText :: string where
  "blockScalarText = ''data: |'' @ [NL] @ ''  name nginx''"

text \<open>A block scalar nested under \<open>spec\<close>, followed by a repeated key.\<close>

definition afterBlockScalar :: string where
  "afterBlockScalar = ''spec:'' @ [NL] @ ''  script: |'' @ [NL] @ ''    echo'' @ [NL]
     @ ''  name: a'' @ [NL] @ ''  name: b''"

text \<open>A valid document whose \<open>metadata\<close> is a string, and the value \<open>js-yaml\<close> loads from it.\<close>

definition misplacedName :: string where
  "misplacedName = ''metadata: foo'' @ [NL] @ ''name: x''"

definition misplacedNameValue :: YamlValue where
  "misplacedNameValue = YMap [(''metadata'', YStr ''foo''), (''name'', YStr ''x'')]"


section \<open>Block-scalar spans\<close>

text \<open>The lines of a block-scalar span, for the statement of the properties.  The
  indent of a line is the count of its leading blanks.  A line whose trimmed text ends in
  \<open>|\<close> or \<open>>\<close> opens a span, and the first line after it that is not blank and whose
  indent is at most the opener's closes it; \<open>inSpan lines j\<close> says that the line at
  position \<open>j\<close> (from 0) lies inside a span.\<close>

definition leadingBlanks :: "string \<Rightarrow> nat" where
  "leadingBlanks line = length (takeWhile (\<lambda>c. c = CHR '' '') line)"

definition opensSpan :: "string \<Rightarrow> bool" where
  "opensSpan line = (endsWith (trim line) ''|'' \<or> endsWith (trim line) ''>'')"

definition closesSpan :: "string \<Rightarrow> string \<Rightarrow> bool" where
  "closesSpan opener line = (trim line \<noteq> [] \<and> leadingBlanks line \<le> leadingBlanks opener)"

definition inSpan :: "string list \<Rightarrow> nat \<Rightarrow> bool" where
  "inSpan lines j =
     (\<exists>k \<in> {0..<j}. opensSpan (lines ! k)
        \<and> (\<forall>m \<in> {k + 1..j}. \<not> closesSpan (lines ! k) (lines ! m)))"

text \<open>The state of phase 1 before the line at position \<open>j\<close>.\<close>

definition phase1Before :: "nat \<Rightarrow> string list \<Rightarrow> nat \<Rightarrow> Phase1State" where
  "phase1Before indentSz lines j = fold (phase1Step indentSz lines) [0..<j] initialPhase1State"

section \<open>Flat mappings\<close>









section \<open>Properties\<close>

subsection \<open>The confidence scorer and the indentation-style detector\<close>

lemma overallLoop_sums:
  "overallLoop fs (a, b) =
     (a + (\<Sum>f\<leftarrow>fs. confidence f * weights (severity f)), b + (\<Sum>f\<leftarrow>fs. weights (severity f)))"
  by (induction fs arbitrary: a b) (simp_all add: algebra_simps)

lemma weights_positive: "0 < weights s"
  by (cases s) simp_all

lemma total_weight_positive: "fs \<noteq> [] \<Longrightarrow> 0 < (\<Sum>f\<leftarrow>fs. weights (severity f))"
proof (induction fs)
  case Nil
  then show ?case by simp
next
  case (Cons f fs)
  have "0 \<le> (\<Sum>f\<leftarrow>fs. weights (severity f))"
    by (rule sum_list_nonneg) (auto simp: less_imp_le weights_positive)
  with weights_positive [of "severity f"] show ?case by simp
qed

text \<open>
  Claim C6.  The overall confidence of a set of fixes is the severity-weighted average of
  their confidences, with the weights critical 1.5, error 1.0, warning 0.7 and info 0.5,
  and it is 1.0 for the empty set.  The theorem needs no bound on the confidences.
\<close>

theorem overall_confidence_weighted_average:
  "calculateOverallConfidence fixes =
     (if fixes = [] then 1
      else (\<Sum>f\<leftarrow>fixes. confidence f * weights (severity f)) / (\<Sum>f\<leftarrow>fixes. weights (severity f)))
   \<and> weights critical = 3 / 2 \<and> weights error = 1 \<and> weights warning = 7 / 10 \<and> weights info = 1 / 2"
  using total_weight_positive [of "fixes"]
  by (simp add: calculateOverallConfidence_def overallLoop_sums)

lemma detectLoop_counts:
  "detectLoop ls (a, b) =
     (a + length (filter (\<lambda>l. 0 < getIndent l \<and> getIndent l mod 2 = 0) ls),
      b + length (filter (\<lambda>l. 0 < getIndent l \<and> getIndent l mod 4 = 0) ls))"
  by (induction ls arbitrary: a b) (auto simp: getIndent_def Let_def)

text \<open>
  Claim C9.  The detector counts the indented lines whose indent width is a multiple of 4
  and those whose indent width is a multiple of 2, and it returns 4 exactly when the first
  count is strictly greater than the second, and 2 otherwise (ties included).
\<close>

theorem detectIndentationStyle_counts:
  "detectIndentationStyle content =
     (if length (filter (\<lambda>l. 0 < getIndent l \<and> getIndent l mod 4 = 0) (splitLines content))
         > length (filter (\<lambda>l. 0 < getIndent l \<and> getIndent l mod 2 = 0) (splitLines content))
      then 4 else 2)"
  by (simp add: detectIndentationStyle_def detectLoop_counts)

text \<open>
  Every multiple of 4 is a multiple of 2, so the first count never exceeds the second and
  the detector in fact answers 2 on every text.
\<close>

lemma mult4_le_mult2:
  "length (filter (\<lambda>l. 0 < getIndent l \<and> getIndent l mod 4 = 0) ls)
     \<le> length (filter (\<lambda>l. 0 < getIndent l \<and> getIndent l mod 2 = 0) ls)"
proof (induction ls)
  case Nil
  then show ?case by simp
next
  case (Cons l ls)
  have "getIndent l mod 4 = 0 \<Longrightarrow> getIndent l mod 2 = 0" by presburger
  with Cons show ?case by auto
qed

lemma detectIndentationStyle_always_2: "detectIndentationStyle content = 2"
  using mult4_le_mult2 [of "splitLines content"]
  by (simp add: detectIndentationStyle_def detectLoop_counts)

subsection \<open>Applying a batch of fixes\<close>

lemma splitOn_not_Nil: "splitOn c s \<noteq> []"
  by (induction s) (auto split: list.splits)

lemma splitOn_no_sep: "l \<in> set (splitOn c s) \<Longrightarrow> c \<notin> set l"
proof (induction s arbitrary: l)
  case Nil
  then show ?case by simp
next
  case (Cons x s)
  then show ?case
    by (cases "splitOn c s") (auto simp: splitOn_not_Nil split: if_splits)
qed

lemma splitOn_free: "c \<notin> set l \<Longrightarrow> splitOn c l = [l]"
  by (induction l) auto

lemma splitOn_append_sep: "c \<notin> set l \<Longrightarrow> splitOn c (l @ c # r) = l # splitOn c r"
  by (induction l) auto

lemma splitOn_joinWith:
  "ls \<noteq> [] \<Longrightarrow> \<forall>l\<in>set ls. c \<notin> set l \<Longrightarrow> splitOn c (joinWith [c] ls) = ls"
  by (induction "[c]" ls rule: joinWith.induct) (simp_all add: splitOn_free splitOn_append_sep)

lemma length_applyLoop: "length (applyLoop ls fs) = length ls"
  by (induction fs arbitrary: ls) simp_all

lemma applyLoop_frame:
  "i < length ls \<Longrightarrow> \<forall>f\<in>set fs. lineNumber f \<noteq> int i + 1 \<Longrightarrow> applyLoop ls fs ! i = ls ! i"
proof (induction fs arbitrary: ls)
  case Nil
  then show ?case by simp
next
  case (Cons f fs)
  have "nat (lineNumber f - 1) \<noteq> i" if "0 < lineNumber f"
    using Cons.prems(2) that by auto
  with Cons show ?case by simp
qed

lemma set_applyLoop: "set (applyLoop ls fs) \<subseteq> set ls \<union> fixed ` set fs"
proof (induction fs arbitrary: ls)
  case Nil
  then show ?case by simp
next
  case (Cons f fs)
  have "set (ls[nat (lineNumber f - 1) := fixed f]) \<subseteq> insert (fixed f) (set ls)"
    by (rule set_update_subset_insert)
  with Cons.IH [of "ls[nat (lineNumber f - 1) := fixed f]"] Cons.IH [of ls]
  show ?case by auto
qed

lemma applyLoop_in_range:
  "applyLoop ls fs = applyLoop ls (filter (\<lambda>f. 0 < lineNumber f \<and> lineNumber f \<le> int (length ls)) fs)"
proof (induction fs arbitrary: ls)
  case Nil
  then show ?case by simp
next
  case (Cons f fs)
  show ?case
    using Cons.IH [of ls] Cons.IH [of "ls[nat (lineNumber f - 1) := fixed f]"]
    by simp
qed

lemma set_sortDescending: "set (sortDescending fs) = set fs"
  by (simp add: sortDescending_def)

text \<open>
  Claim C10, amended.  When no replacement text of the batch contains a line feed,
  applying the batch keeps the number of lines of the document, leaves every line whose
  1-based number no fix of the batch targets unchanged, and ignores the fixes whose line
  number is not positive or is greater than the number of lines.
\<close>

theorem applyFixes_frame:
  assumes "\<forall>f\<in>set fs. NL \<notin> set (fixed f)"
  shows "length (splitLines (applyFixes s fs)) = length (splitLines s)
    \<and> (\<forall>n. 0 < n \<and> n \<le> length (splitLines s) \<and> (\<forall>f\<in>set fs. lineNumber f \<noteq> int n)
          \<longrightarrow> splitLines (applyFixes s fs) ! (n - 1) = splitLines s ! (n - 1))
    \<and> applyFixes s fs =
        applyFixes s (filter (\<lambda>f. 0 < lineNumber f \<and> lineNumber f \<le> int (length (splitLines s))) fs)"
proof -
  let ?ls = "splitLines s"
  let ?out = "applyLoop ?ls (sortDescending fs)"
  have ne: "?out \<noteq> []"
    using length_applyLoop [of ?ls "sortDescending fs"] splitOn_not_Nil [of NL s]
    by (auto simp: splitLines_def)
  have free: "\<forall>l\<in>set ?out. NL \<notin> set l"
  proof
    fix l assume "l \<in> set ?out"
    then have "l \<in> set ?ls \<or> l \<in> fixed ` set fs"
      using set_applyLoop [of ?ls "sortDescending fs"] by (auto simp: set_sortDescending)
    then show "NL \<notin> set l"
      using assms splitOn_no_sep [of l NL s] by (auto simp: splitLines_def)
  qed
  have rt: "splitLines (applyFixes s fs) = ?out"
    using splitOn_joinWith [OF ne free]
    by (simp add: applyFixes_def splitLines_def joinLines_def)
  have len: "length (splitLines (applyFixes s fs)) = length ?ls"
    by (simp add: rt length_applyLoop)
  have frame: "splitLines (applyFixes s fs) ! (n - 1) = ?ls ! (n - 1)"
    if "0 < n" "n \<le> length ?ls" "\<forall>f\<in>set fs. lineNumber f \<noteq> int n" for n
  proof -
    have "\<forall>f\<in>set (sortDescending fs). lineNumber f \<noteq> int (n - 1) + 1"
      using that by (auto simp: set_sortDescending)
    moreover have "n - 1 < length ?ls" using that by simp
    ultimately show ?thesis
      by (simp only: rt applyLoop_frame)
  qed
  have ignore: "applyFixes s fs =
      applyFixes s (filter (\<lambda>f. 0 < lineNumber f \<and> lineNumber f \<le> int (length ?ls)) fs)"
    unfolding applyFixes_def sortDescending_def
    by (subst applyLoop_in_range) (simp add: filter_sort)
  from len frame ignore show ?thesis by blast
qed

theorem applyFixes_frame_witness:
  "NL \<notin> set (fixed (sampleFix 2 ''b: 1'')) \<and> NL \<notin> set (fixed (sampleFix 7 ''zz''))
   \<and> splitLines (applyFixes (''a:'' @ [NL] @ ''b 1'' @ [NL] @ ''c'') [sampleFix 2 ''b: 1'', sampleFix 7 ''zz''])
       = [''a:'', ''b: 1'', ''c'']
   \<and> applyFixes (''a:'' @ [NL] @ ''b 1'' @ [NL] @ ''c'') [sampleFix 2 ''b: 1'', sampleFix 7 ''zz'']
       = applyFixes (''a:'' @ [NL] @ ''b 1'' @ [NL] @ ''c'') [sampleFix 2 ''b: 1'']"
  using applyFixes_frame [of "[sampleFix 2 ''b: 1'', sampleFix 7 ''zz'']" "''a:'' @ [NL] @ ''b 1'' @ [NL] @ ''c''"]
  by (simp add: sampleFix_def NL_def splitLines_def applyFixes_def joinLines_def sortDescending_def)

text \<open>
  Claim C10 as stated, for every batch, fails: a replacement text that contains a line
  feed adds a line to the document, and the line after it is no longer where it was.
\<close>

theorem applyFixes_line_count_counterexample:
  "length (splitLines (applyFixes (''a'' @ [NL] @ ''b'') [sampleFix 1 (''x'' @ [NL] @ ''y'')])) = 3
   \<and> length (splitLines (''a'' @ [NL] @ ''b'')) = 2
   \<and> splitLines (applyFixes (''a'' @ [NL] @ ''b'') [sampleFix 1 (''x'' @ [NL] @ ''y'')]) ! 1 = ''y''
   \<and> splitLines (''a'' @ [NL] @ ''b'') ! 1 = ''b''"
  by (simp add: sampleFix_def NL_def splitLines_def applyFixes_def joinLines_def sortDescending_def)

subsection \<open>The indentation tracker\<close>

lemma popFrames_dropWhile:
  "popFrames indent stack = dropWhile (\<lambda>fr. indent \<le> il_indent fr) stack"
  by (induction stack) simp_all

lemma popFrames_suffix: "\<exists>popped. stack = popped @ popFrames indent stack"
proof (induction stack)
  case Nil
  then show ?case by simp
next
  case (Cons fr stack)
  then obtain popped where p: "stack = popped @ popFrames indent stack" by blast
  show ?case
  proof (cases "indent \<le> il_indent fr")
    case True
    with p have "fr # stack = (fr # popped) @ popFrames indent (fr # stack)" by simp
    then show ?thesis by (rule exI)
  next
    case False
    then have "fr # stack = [] @ popFrames indent (fr # stack)" by simp
    then show ?thesis by (rule exI)
  qed
qed

lemma popFrames_increasing: "stackIncreasing stack \<Longrightarrow> stackIncreasing (popFrames indent stack)"
  by (induction stack) (auto simp: stackIncreasing_def)

lemma popFrames_below:
  "stackIncreasing stack \<Longrightarrow> fr \<in> set (popFrames indent stack) \<Longrightarrow> il_indent fr < indent"
  by (induction stack) (auto simp: stackIncreasing_def split: if_splits)

lemma processLine_increasing:
  "stackIncreasing (indentStack t) \<Longrightarrow> stackIncreasing (indentStack (processLine n content indent t))"
  by (simp add: processLine_def resetTracker_def popFrames_increasing) (simp add: stackIncreasing_def)

lemma processLine_below:
  "stackIncreasing (indentStack t) \<Longrightarrow> fr \<in> set (indentStack (processLine n content indent t))
     \<Longrightarrow> il_indent fr < indent"
  by (auto simp: processLine_def resetTracker_def popFrames_below split: if_splits)

lemma analyzeLine_increasing:
  assumes "stackIncreasing (indentStack (ca_tracker a))"
  shows "stackIncreasing (indentStack (ca_tracker (snd (analyzeLine n content a))))"
proof -
  let ?t = "processLine n content (getIndent content) (ca_tracker a)"
  have inc: "stackIncreasing (indentStack ?t)"
    using assms by (rule processLine_increasing)
  have below: "\<forall>fr\<in>set (indentStack ?t). il_indent fr < getIndent content"
    using assms processLine_below by blast
  have "stackIncreasing (indentStack (push (getIndent content) k ty n ?t))" for k ty
    using inc below by (auto simp: push_def stackIncreasing_def)
  with inc show ?thesis
    by (simp add: analyzeLine_def updateContext_def Let_def extractKeyValue_def split: option.splits)
qed

lemma parseLoop_increasing:
  "stackIncreasing (indentStack (ca_tracker a))
   \<Longrightarrow> stackIncreasing (indentStack (ca_tracker (snd (parseLoop i contents a))))"
proof (induction contents arbitrary: i a)
  case Nil
  then show ?case by simp
next
  case (Cons c contents)
  from Cons.prems have "stackIncreasing (indentStack (ca_tracker (snd (analyzeLine (i + 1) c a))))"
    by (rule analyzeLine_increasing)
  then show ?case using Cons.IH by (simp add: Let_def)
qed


text \<open>
  Claim C8.  After every sequence of lines processed from a fresh analyzer the stack of
  the indentation tracker increases strictly from bottom to top, and every single line
  keeps it so.  Processing a line that is no separator pops frames from the top exactly
  as long as the top frame has an indent at least the incoming one: every popped frame
  has such an indent, the frame that is then on top, if there is one, has a smaller one,
  and on an increasing stack every frame that remains has an indent strictly smaller
  than the incoming one.  A \<open>---\<close> separator clears the stack.
\<close>

theorem tracker_stack_increasing:
  "stackIncreasing (indentStack (ca_tracker (snd (parseLoop i contents newAnalyzer))))
   \<and> (stackIncreasing (indentStack (ca_tracker a))
        \<longrightarrow> stackIncreasing (indentStack (ca_tracker (snd (analyzeLine n content a)))))
   \<and> (trim content \<noteq> ''---''
        \<longrightarrow> indentStack (processLine n content indent t)
              = dropWhile (\<lambda>fr. indent \<le> il_indent fr) (indentStack t)
          \<and> (\<exists>popped. indentStack t = popped @ indentStack (processLine n content indent t)
                \<and> (\<forall>fr\<in>set popped. indent \<le> il_indent fr))
          \<and> (indentStack (processLine n content indent t) = []
              \<or> il_indent (hd (indentStack (processLine n content indent t))) < indent))
   \<and> (stackIncreasing (indentStack t) \<and> trim content \<noteq> ''---''
        \<longrightarrow> (\<forall>fr\<in>set (indentStack (processLine n content indent t)). il_indent fr < indent))
   \<and> (trim content = ''---'' \<longrightarrow> indentStack (processLine n content indent t) = [])"
proof -
  have "stackIncreasing (indentStack (ca_tracker newAnalyzer))"
    by (simp add: newAnalyzer_def newTracker_def stackIncreasing_def)
  then have whole: "stackIncreasing (indentStack (ca_tracker (snd (parseLoop i contents newAnalyzer))))"
    by (rule parseLoop_increasing)
  have stack: "indentStack (processLine n content indent t)
      = dropWhile (\<lambda>fr. indent \<le> il_indent fr) (indentStack t)"
    if "trim content \<noteq> ''---''"
    using that by (simp add: processLine_def popFrames_dropWhile)
  have pops: "\<exists>popped. indentStack t = popped @ indentStack (processLine n content indent t)
      \<and> (\<forall>fr\<in>set popped. indent \<le> il_indent fr)"
    if "trim content \<noteq> ''---''"
  proof -
    have "indentStack t = takeWhile (\<lambda>fr. indent \<le> il_indent fr) (indentStack t)
        @ indentStack (processLine n content indent t)"
      using stack [OF that] by simp
    moreover have "\<forall>fr\<in>set (takeWhile (\<lambda>fr. indent \<le> il_indent fr) (indentStack t)).
        indent \<le> il_indent fr"
      by (auto dest: set_takeWhileD)
    ultimately show ?thesis by blast
  qed
  have top: "indentStack (processLine n content indent t) = []
      \<or> il_indent (hd (indentStack (processLine n content indent t))) < indent"
    if "trim content \<noteq> ''---''"
  proof -
    have "dropWhile (\<lambda>fr. indent \<le> il_indent fr) (indentStack t) = []
        \<or> \<not> indent \<le> il_indent (hd (dropWhile (\<lambda>fr. indent \<le> il_indent fr) (indentStack t)))"
      using hd_dropWhile [of "\<lambda>fr. indent \<le> il_indent fr" "indentStack t"] by blast
    then show ?thesis by (simp add: stack [OF that] not_le)
  qed
  have clears: "indentStack (processLine n content indent t) = []" if "trim content = ''---''"
    using that by (simp add: processLine_def resetTracker_def)
  from whole stack pops top clears show ?thesis
    using analyzeLine_increasing processLine_below by blast
qed

theorem tracker_stack_increasing_witness:
  "stackIncreasing (indentStack (ca_tracker
       (snd (parseLoop 0 [''a:'', ''  b:'', ''    c: 1'', ''  d: 2''] newAnalyzer))))
   \<and> map il_indent (indentStack (ca_tracker
       (snd (parseLoop 0 [''a:'', ''  b:'', ''    c: 1'', ''  d: 2''] newAnalyzer)))) = [2, 0]
   \<and> map il_indent (indentStack (ca_tracker
       (snd (parseLoop 0 [''a:'', ''  b:'', ''    c: 1''] newAnalyzer)))) = [4, 2, 0]
   \<and> trim ''  d: 2'' \<noteq> ''---''
   \<and> map il_indent (indentStack (processLine 4 ''  d: 2'' 2 (ca_tracker
       (snd (parseLoop 0 [''a:'', ''  b:'', ''    c: 1''] newAnalyzer))))) = [0]
   \<and> indentStack (processLine 5 ''---'' 0 (ca_tracker
       (snd (parseLoop 0 [''a:'', ''  b:'', ''    c: 1''] newAnalyzer)))) = []"
proof -
  have "stackIncreasing (indentStack (ca_tracker
       (snd (parseLoop 0 [''a:'', ''  b:'', ''    c: 1'', ''  d: 2''] newAnalyzer))))"
    using tracker_stack_increasing [of 0 "[''a:'', ''  b:'', ''    c: 1'', ''  d: 2'']"] by blast
  moreover have "map il_indent (indentStack (ca_tracker
       (snd (parseLoop 0 [''a:'', ''  b:'', ''    c: 1'', ''  d: 2''] newAnalyzer)))) = [2, 0]"
    by code_simp
  moreover have "map il_indent (indentStack (ca_tracker
       (snd (parseLoop 0 [''a:'', ''  b:'', ''    c: 1''] newAnalyzer)))) = [4, 2, 0]"
    by code_simp
  moreover have "trim ''  d: 2'' \<noteq> ''---''"
    by code_simp
  moreover have "map il_indent (indentStack (processLine 4 ''  d: 2'' 2 (ca_tracker
       (snd (parseLoop 0 [''a:'', ''  b:'', ''    c: 1''] newAnalyzer))))) = [0]"
    by code_simp
  moreover have "indentStack (processLine 5 ''---'' 0 (ca_tracker
       (snd (parseLoop 0 [''a:'', ''  b:'', ''    c: 1''] newAnalyzer)))) = []"
    by code_simp
  ultimately show ?thesis by blast
qed

subsection \<open>The iterative fixer\<close>

declare fixLoop.simps [simp del]

lemma fixLoop_iteration_bound:
  "iteration (fixLoop yamlLoad typeCoercer opts st) \<le> max (iteration st) (maxIterations opts)"
proof (induction yamlLoad typeCoercer opts st rule: fixLoop.induct)
  case (1 yamlLoad typeCoercer opts st)
  show ?case
  proof (cases "iteration st < maxIterations opts")
    case False
    then show ?thesis by (subst fixLoop.simps) simp
  next
    case True
    let ?st1 = "st\<lparr>iteration := iteration st + 1\<rparr>"
    let ?valid = "validFixes typeCoercer opts (currentYaml ?st1)"
    let ?st2 = "?st1\<lparr>currentYaml := applyFixes (currentYaml ?st1) ?valid,
                     allFixes := allFixes ?st1 @ ?valid\<rparr>"
    show ?thesis
    proof (cases "length ?valid = 0")
      case True
      with \<open>iteration st < maxIterations opts\<close> show ?thesis
        by (subst fixLoop.simps) (simp add: Let_def)
    next
      case False
      note nonempty = this
      show ?thesis
      proof (cases "yamlLoad (currentYaml ?st2)")
        case (Inr v)
        with True nonempty show ?thesis
          by (subst fixLoop.simps) (simp add: Let_def)
      next
        case (Inl e)
        have "iteration (fixLoop yamlLoad typeCoercer opts ?st2)
                \<le> max (iteration ?st2) (maxIterations opts)"
          using "1.IH" [OF True refl refl nonempty refl Inl] .
        with True nonempty Inl show ?thesis
          by (subst fixLoop.simps) (simp add: Let_def)
      qed
    qed
  qed
qed

lemma fixLoop_stops_without_fixes:
  "iteration st < maxIterations opts \<Longrightarrow> validFixes typeCoercer opts (currentYaml st) = []
     \<Longrightarrow> fixLoop yamlLoad typeCoercer opts st = st\<lparr>iteration := iteration st + 1\<rparr>"
  by (subst fixLoop.simps) (simp add: Let_def)

lemma fix_returns_loop_text:
  "vr_fixedYaml (IntelligentYAMLFixer_fix yamlLoad typeCoercer opts yamlContent)
     = currentYaml (fixLoop yamlLoad typeCoercer opts (initialState yamlContent))"
  by (simp add: IntelligentYAMLFixer_fix_def Let_def split: sum.splits)

lemma fix_reports_parse_error:
  "yamlLoad (currentYaml (fixLoop yamlLoad typeCoercer opts (initialState yamlContent))) = Inl e
   \<Longrightarrow> vr_errors (IntelligentYAMLFixer_fix yamlLoad typeCoercer opts yamlContent)
         = [\<lparr>fe_line = (case mark e of None \<Rightarrow> 0 | Some (l, c) \<Rightarrow> l),
             fe_message = message e, fe_severity = error\<rparr>]
       \<and> \<not> vr_isValid (IntelligentYAMLFixer_fix yamlLoad typeCoercer opts yamlContent)"
  by (simp add: IntelligentYAMLFixer_fix_def Let_def)

text \<open>
  Claim C3.  The loop of \<open>fix\<close> runs at most \<open>maxIterations\<close> times (3 by default): the
  counter starts at 0, grows by one in each iteration and never passes the cap.  An
  iteration in which no suggestion passes the confidence filter ends the loop at once,
  whatever the parser says of the text; the text of the loop is what \<open>fix\<close> returns, and
  when the parser rejects it the result holds the parser's error.
\<close>

theorem fix_loop_bounded:
  "iteration (fixLoop yamlLoad typeCoercer opts (initialState yamlContent)) \<le> max 0 (maxIterations opts)
   \<and> maxIterations (newFixer noOptions) = 3
   \<and> (iteration st < maxIterations opts \<and> validFixes typeCoercer opts (currentYaml st) = []
        \<longrightarrow> fixLoop yamlLoad typeCoercer opts st = st\<lparr>iteration := iteration st + 1\<rparr>)
   \<and> vr_fixedYaml (IntelligentYAMLFixer_fix yamlLoad typeCoercer opts yamlContent)
        = currentYaml (fixLoop yamlLoad typeCoercer opts (initialState yamlContent))
   \<and> (yamlLoad (currentYaml (fixLoop yamlLoad typeCoercer opts (initialState yamlContent))) = Inl e
        \<longrightarrow> vr_errors (IntelligentYAMLFixer_fix yamlLoad typeCoercer opts yamlContent)
              = [\<lparr>fe_line = (case mark e of None \<Rightarrow> 0 | Some (l, c) \<Rightarrow> l),
                  fe_message = message e, fe_severity = error\<rparr>]
            \<and> \<not> vr_isValid (IntelligentYAMLFixer_fix yamlLoad typeCoercer opts yamlContent))"
proof -
  have "iteration (fixLoop yamlLoad typeCoercer opts (initialState yamlContent))
          \<le> max 0 (maxIterations opts)"
    using fixLoop_iteration_bound [of yamlLoad typeCoercer opts "initialState yamlContent"]
    by (simp add: initialState_def)
  moreover have "maxIterations (newFixer noOptions) = 3"
    by (simp add: newFixer_def noOptions_def orDefault_def Let_def)
  ultimately show ?thesis
    using fixLoop_stops_without_fixes fix_returns_loop_text fix_reports_parse_error by blast
qed

lemma sample_run_high_threshold:
  "(let r = IntelligentYAMLFixer_fix loadSample noTypeFixes (newFixer (withThreshold 0.7)) brokenList
    in (vr_isValid r, map lineNumber (vr_fixes r), map fixed (vr_fixes r), vr_fixedYaml r, vr_errors r))
   = (False, [2, 2, 3, 3], [''  img: nginx'', ''  image: nginx'', ''  ns: prod'', ''  namespace: prod''],
      twiceFixed,
      [\<lparr>fe_line = 1, fe_message = ''bad indentation of a sequence entry'', fe_severity = error\<rparr>])"
  by code_simp

lemma sample_run_low_threshold:
  "(let r = IntelligentYAMLFixer_fix loadSample noTypeFixes (newFixer (withThreshold 0.5)) brokenList
    in (vr_isValid r, map lineNumber (vr_fixes r), map fixed (vr_fixes r), vr_fixedYaml r, vr_errors r))
   = (True, [1, 2, 3], [''- Frontend:'', ''  img: nginx'', ''  ns: prod''], brokenListFixed, [])"
  by code_simp

lemma sample_loop_high_threshold:
  "(let st = fixLoop loadSample noTypeFixes (newFixer (withThreshold 0.7)) (initialState brokenList)
    in (iteration st, currentYaml st, length (allFixes st))) = (3, twiceFixed, 4)"
  by code_simp

lemma sample_third_iteration:
  "validFixes noTypeFixes (newFixer (withThreshold 0.7)) twiceFixed = []
   \<and> loadSample twiceFixed = Inl \<lparr>mark = Some (1, 5), message = ''bad indentation of a sequence entry''\<rparr>"
  by code_simp

theorem fix_loop_bounded_witness:
  "iteration (fixLoop loadSample noTypeFixes (newFixer (withThreshold 0.7)) (initialState brokenList)) = 3
   \<and> iteration (fixLoop loadSample noTypeFixes (newFixer (withThreshold 0.7)) (initialState brokenList))
        \<le> max 0 (maxIterations (newFixer (withThreshold 0.7)))
   \<and> validFixes noTypeFixes (newFixer (withThreshold 0.7)) twiceFixed = []
   \<and> fixLoop loadSample noTypeFixes (newFixer (withThreshold 0.7))
        \<lparr>allFixes = [], currentYaml = twiceFixed, iteration = 2\<rparr>
       = \<lparr>allFixes = [], currentYaml = twiceFixed, iteration = 3\<rparr>
   \<and> vr_fixedYaml (IntelligentYAMLFixer_fix loadSample noTypeFixes (newFixer (withThreshold 0.7)) brokenList)
       = twiceFixed
   \<and> vr_errors (IntelligentYAMLFixer_fix loadSample noTypeFixes (newFixer (withThreshold 0.7)) brokenList)
       = [\<lparr>fe_line = 1, fe_message = ''bad indentation of a sequence entry'', fe_severity = error\<rparr>]
   \<and> \<not> vr_isValid (IntelligentYAMLFixer_fix loadSample noTypeFixes (newFixer (withThreshold 0.7)) brokenList)"
proof -
  let ?opts = "newFixer (withThreshold 0.7)"
  let ?st = "\<lparr>allFixes = [], currentYaml = twiceFixed, iteration = 2\<rparr>"
  let ?e = "\<lparr>mark = Some (1, 5), message = ''bad indentation of a sequence entry''\<rparr>"
  note inst = fix_loop_bounded [of loadSample noTypeFixes ?opts brokenList ?st ?e]
  have run: "iteration (fixLoop loadSample noTypeFixes ?opts (initialState brokenList)) = 3"
    "currentYaml (fixLoop loadSample noTypeFixes ?opts (initialState brokenList)) = twiceFixed"
    using sample_loop_high_threshold by (simp_all add: Let_def)
  have third: "validFixes noTypeFixes ?opts twiceFixed = []" "loadSample twiceFixed = Inl ?e"
    using sample_third_iteration by simp_all
  have cap: "maxIterations ?opts = 3"
    by (simp add: newFixer_def withThreshold_def noOptions_def orDefault_def Let_def)
  from inst run third cap show ?thesis by simp
qed

text \<open>
  Claim C5 as stated fails.  On \<open>brokenList\<close> the threshold 0.5 accepts the three colon
  fixes of the first iteration, the text parses and the loop ends with 3 fixes.  The
  threshold 0.7 rejects the colon fix of the first line (confidence 0.6), so the text
  still fails to parse, and the second iteration corrects the two aliases that the first
  one turned into keys: 4 fixes.
\<close>

theorem threshold_monotonicity_counterexample:
  "(0.5 :: real) \<le> 0.7
   \<and> length (vr_fixes (IntelligentYAMLFixer_fix loadSample noTypeFixes (newFixer (withThreshold 0.5)) brokenList)) = 3
   \<and> length (vr_fixes (IntelligentYAMLFixer_fix loadSample noTypeFixes (newFixer (withThreshold 0.7)) brokenList)) = 4"
proof -
  have "map lineNumber (vr_fixes (IntelligentYAMLFixer_fix loadSample noTypeFixes (newFixer (withThreshold 0.5)) brokenList)) = [1, 2, 3]"
    using sample_run_low_threshold by (simp add: Let_def)
  then have "length (vr_fixes (IntelligentYAMLFixer_fix loadSample noTypeFixes (newFixer (withThreshold 0.5)) brokenList))
      = length [1 :: int, 2, 3]"
    by (metis length_map)
  moreover have "map lineNumber (vr_fixes (IntelligentYAMLFixer_fix loadSample noTypeFixes (newFixer (withThreshold 0.7)) brokenList)) = [2, 2, 3, 3]"
    using sample_run_high_threshold by (simp add: Let_def)
  then have "length (vr_fixes (IntelligentYAMLFixer_fix loadSample noTypeFixes (newFixer (withThreshold 0.7)) brokenList))
      = length [2 :: int, 2, 3, 3]"
    by (metis length_map)
  ultimately show ?thesis by simp
qed

lemma missingColonsLoop_monotone:
  "confidenceThreshold o1 \<le> confidenceThreshold o2 \<Longrightarrow>
   length (missingColonsLoop p o2 ls) \<le> length (missingColonsLoop p o1 ls)"
  by (induction ls) (auto split: option.splits)

lemma typosLoop_monotone:
  "confidenceThreshold o1 \<le> confidenceThreshold o2 \<Longrightarrow>
   length (typosLoop p o2 ls) \<le> length (typosLoop p o1 ls)"
  by (induction ls) (auto split: option.splits)

lemma keepFix_monotone:
  "confidenceThreshold o1 \<le> confidenceThreshold o2 \<Longrightarrow>
   length (keepFix o2 r) \<le> length (keepFix o1 r)"
  by (auto simp: keepFix_def split: option.splits)

lemma brokenListsLoop_monotone:
  assumes "confidenceThreshold o1 \<le> confidenceThreshold o2"
  shows "length (brokenListsLoop p o2 ls) \<le> length (brokenListsLoop p o1 ls)"
proof (induction ls)
  case Nil
  then show ?case by simp
next
  case (Cons l ls)
  show ?case
    using Cons.IH keepFix_monotone [OF assms, of "fixBrokenEnvVar p l"]
      keepFix_monotone [OF assms, of "fixBrokenContainer p l"]
      keepFix_monotone [OF assms, of "fixBrokenVolumeMount p l"]
    by simp
qed

lemma missingColonsLoop_above: "f \<in> set (missingColonsLoop p opts ls) \<Longrightarrow> confidenceThreshold opts \<le> confidence f"
  by (induction ls) (auto split: option.splits if_splits)

lemma typosLoop_above: "f \<in> set (typosLoop p opts ls) \<Longrightarrow> confidenceThreshold opts \<le> confidence f"
  by (induction ls) (auto split: option.splits if_splits)

lemma brokenListsLoop_above: "f \<in> set (brokenListsLoop p opts ls) \<Longrightarrow> confidenceThreshold opts \<le> confidence f"
  by (induction ls) (auto simp: keepFix_def split: option.splits if_splits)

lemma filter_all: "(\<And>x. x \<in> set xs \<Longrightarrow> P x) \<Longrightarrow> filter P xs = xs"
  by (induction xs) auto

lemma validFixes_split:
  "validFixes tc opts text =
     findMissingColons (parse text) opts @ findTypos (parse text) opts
     @ findBrokenLists (parse text) opts
     @ filterByConfidence (tc (parse text) opts) (confidenceThreshold opts)"
  by (simp add: validFixes_def iterationFixes_def filterByConfidence_def Let_def
      findMissingColons_def findTypos_def findBrokenLists_def
      filter_all missingColonsLoop_above typosLoop_above brokenListsLoop_above)

lemma validFixes_monotone:
  assumes "confidenceThreshold o1 \<le> confidenceThreshold o2"
    and "length (filterByConfidence (tc (parse text) o2) (confidenceThreshold o2))
           \<le> length (filterByConfidence (tc (parse text) o1) (confidenceThreshold o1))"
  shows "length (validFixes tc o2 text) \<le> length (validFixes tc o1 text)"
  using assms(2) missingColonsLoop_monotone [OF assms(1), of "parse text" "sp_lines (parse text)"]
    typosLoop_monotone [OF assms(1), of "parse text" "sp_lines (parse text)"]
    brokenListsLoop_monotone [OF assms(1), of "parse text" "sp_lines (parse text)"]
  by (simp add: validFixes_split findMissingColons_def findTypos_def findBrokenLists_def)

lemma fixLoop_one_iteration:
  assumes "maxIterations opts \<le> 1"
  shows "allFixes (fixLoop yamlLoad tc opts (initialState text))
           = (if maxIterations opts = 1 then validFixes tc opts text else [])"
proof (cases "maxIterations opts = 1")
  case False
  with assms have "\<not> iteration (initialState text) < maxIterations opts"
    by (simp add: initialState_def)
  then have "fixLoop yamlLoad tc opts (initialState text) = initialState text"
    by (subst fixLoop.simps) simp
  with False show ?thesis by (simp add: initialState_def)
next
  case True
  let ?valid = "validFixes tc opts text"
  let ?st2 = "\<lparr>allFixes = ?valid, currentYaml = applyFixes text ?valid, iteration = 1\<rparr>"
  have stop: "fixLoop yamlLoad tc opts ?st2 = ?st2"
    using True by (subst fixLoop.simps) simp
  show ?thesis
  proof (cases "?valid = []")
    case True
    with \<open>maxIterations opts = 1\<close> show ?thesis
      by (subst fixLoop.simps) (simp add: initialState_def Let_def)
  next
    case False
    with \<open>maxIterations opts = 1\<close> stop show ?thesis
      by (subst fixLoop.simps) (simp add: initialState_def Let_def split: sum.splits)
  qed
qed

lemma length_vr_fixes:
  "length (vr_fixes (IntelligentYAMLFixer_fix yamlLoad tc opts text))
     = length (allFixes (fixLoop yamlLoad tc opts (initialState text)))"
  by (simp add: IntelligentYAMLFixer_fix_def Let_def split: sum.splits)

lemma newFixer_threshold_monotone:
  "t1 \<le> t2 \<Longrightarrow>
   confidenceThreshold (newFixer (po\<lparr>p_confidenceThreshold := Some t1\<rparr>))
     \<le> confidenceThreshold (newFixer (po\<lparr>p_confidenceThreshold := Some t2\<rparr>))"
  by (auto simp: newFixer_def orDefault_def Let_def min_def split: option.splits)

lemma newFixer_maxIterations:
  "maxIterations (newFixer (po\<lparr>p_confidenceThreshold := t\<rparr>)) = orDefault (p_maxIterations po) 3"
  by (simp add: newFixer_def orDefault_def Let_def)

text \<open>
  Claim C5, amended.  For thresholds \<open>t1 \<le> t2\<close> and all other options equal, no more
  suggestions are accepted at \<open>t2\<close> than at \<open>t1\<close> in an iteration on the same text, and
  when \<open>maxIterations\<close> is at most 1 \<open>fix\<close> with \<open>t2\<close> applies no more fixes than with
  \<open>t1\<close>.  The type-coercion pass, which is not among the sources, is assumed to accept
  no more suggestions at the higher threshold, as the three passes that are there do.
\<close>

theorem threshold_monotone_one_iteration:
  assumes "t1 \<le> t2"
    and "o1 = newFixer (po\<lparr>p_confidenceThreshold := Some t1\<rparr>)"
    and "o2 = newFixer (po\<lparr>p_confidenceThreshold := Some t2\<rparr>)"
    and "\<And>p. length (filterByConfidence (typeCoercer p o2) (confidenceThreshold o2))
              \<le> length (filterByConfidence (typeCoercer p o1) (confidenceThreshold o1))"
  shows "length (validFixes typeCoercer o2 text) \<le> length (validFixes typeCoercer o1 text)
    \<and> (orDefault (p_maxIterations po) 3 \<le> 1 \<longrightarrow>
         length (vr_fixes (IntelligentYAMLFixer_fix yamlLoad typeCoercer o2 text))
           \<le> length (vr_fixes (IntelligentYAMLFixer_fix yamlLoad typeCoercer o1 text)))"
proof -
  have thr: "confidenceThreshold o1 \<le> confidenceThreshold o2"
    using assms(1-3) newFixer_threshold_monotone by simp
  have valid: "length (validFixes typeCoercer o2 text) \<le> length (validFixes typeCoercer o1 text)"
    using thr assms(4) by (rule validFixes_monotone)
  have cap: "maxIterations o1 = orDefault (p_maxIterations po) 3"
    "maxIterations o2 = orDefault (p_maxIterations po) 3"
    using assms(2,3) newFixer_maxIterations by simp_all
  have "length (vr_fixes (IntelligentYAMLFixer_fix yamlLoad typeCoercer o2 text))
          \<le> length (vr_fixes (IntelligentYAMLFixer_fix yamlLoad typeCoercer o1 text))"
    if "orDefault (p_maxIterations po) 3 \<le> 1"
    using that valid cap by (simp add: length_vr_fixes fixLoop_one_iteration)
  with valid show ?thesis by blast
qed

lemma sample_one_iteration:
  "map lineNumber (vr_fixes (IntelligentYAMLFixer_fix loadSample noTypeFixes
      (newFixer (oneIteration\<lparr>p_confidenceThreshold := Some 0.5\<rparr>)) brokenList)) = [1, 2, 3]
   \<and> map lineNumber (vr_fixes (IntelligentYAMLFixer_fix loadSample noTypeFixes
      (newFixer (oneIteration\<lparr>p_confidenceThreshold := Some 0.7\<rparr>)) brokenList)) = [2, 3]"
  by code_simp

theorem threshold_monotone_one_iteration_witness:
  "(0.5 :: real) \<le> 0.7
   \<and> orDefault (p_maxIterations oneIteration) 3 \<le> 1
   \<and> length (vr_fixes (IntelligentYAMLFixer_fix loadSample noTypeFixes
        (newFixer (oneIteration\<lparr>p_confidenceThreshold := Some 0.7\<rparr>)) brokenList))
      \<le> length (vr_fixes (IntelligentYAMLFixer_fix loadSample noTypeFixes
        (newFixer (oneIteration\<lparr>p_confidenceThreshold := Some 0.5\<rparr>)) brokenList))
   \<and> map lineNumber (vr_fixes (IntelligentYAMLFixer_fix loadSample noTypeFixes
        (newFixer (oneIteration\<lparr>p_confidenceThreshold := Some 0.5\<rparr>)) brokenList)) = [1, 2, 3]
   \<and> map lineNumber (vr_fixes (IntelligentYAMLFixer_fix loadSample noTypeFixes
        (newFixer (oneIteration\<lparr>p_confidenceThreshold := Some 0.7\<rparr>)) brokenList)) = [2, 3]"
proof -
  have le: "(0.5 :: real) \<le> 0.7" by simp
  have cap: "orDefault (p_maxIterations oneIteration) 3 \<le> 1"
    by (simp add: oneIteration_def orDefault_def)
  have "length (vr_fixes (IntelligentYAMLFixer_fix loadSample noTypeFixes
        (newFixer (oneIteration\<lparr>p_confidenceThreshold := Some 0.7\<rparr>)) brokenList))
      \<le> length (vr_fixes (IntelligentYAMLFixer_fix loadSample noTypeFixes
        (newFixer (oneIteration\<lparr>p_confidenceThreshold := Some 0.5\<rparr>)) brokenList))"
    using threshold_monotone_one_iteration [OF le refl refl, of noTypeFixes oneIteration brokenList loadSample] cap
    by (simp add: noTypeFixes_def filterByConfidence_def)
  with le cap sample_one_iteration show ?thesis by blast
qed

subsection \<open>The three-phase fixer\<close>






lemma phase1_misplacedName: "phase1_syntaxNormalization 2 misplacedName = ([''metadata: foo'', ''name: x''], [])"
  by code_simp

lemma join_misplacedName: "joinLines [''metadata: foo'', ''name: x''] = misplacedName"
  by code_simp

lemma fixSingleDocument_misplacedName:
  "fixSingleDocument misplacedNameValue
     = Inl (TypeError (''Cannot create property '' @ [CHR 0x22] @ ''name'' @ [CHR 0x22]))"
  by code_simp

lemma not_aggressive_returns:
  "\<exists>r. YAMLFixer_fix yamlLoadAll yamlDump indentSz False content = Inr r"
  by (simp add: YAMLFixer_fix_def Let_def split: option.splits)

lemma parse_failure_reported:
  assumes "yamlLoadAll (joinLines (fst (phase1_syntaxNormalization indentSz content))) = Inl e"
  shows "YAMLFixer_fix yamlLoadAll yamlDump indentSz aggressiveMode content
     = Inr \<lparr>fr_content = joinLines (fst (phase1_syntaxNormalization indentSz content)),
            fr_fixedCount = length (snd (phase1_syntaxNormalization indentSz content)),
            fr_changes = snd (phase1_syntaxNormalization indentSz content),
            fr_errors = [\<lparr>ve_line = (case mark e of None \<Rightarrow> 0 | Some (l, c) \<Rightarrow> l + 1),
                          ve_column = Some (case mark e of None \<Rightarrow> 0 | Some (l, c) \<Rightarrow> c + 1),
                          ve_message = message e, ve_severity = critical,
                          ve_code = YAML_PARSE_ERROR, ve_fixable = False\<rparr>]\<rparr>"
  using assms by (simp add: YAMLFixer_fix_def Let_def phase2_parseValidation_def)

text \<open>
  Claim C1 fails on the code.  \<open>fix\<close> of the three-phase fixer returns a result whenever
  the aggressive mode is off, and it turns a failure of the parser into a critical error
  with line and column (the two lemmas above).  In the aggressive mode the structural
  pass runs outside of any \<open>try\<close>: on \<open>misplacedName\<close>, a valid document whose \<open>metadata\<close> is
  a string, it assigns to a property of that string, and the \<open>TypeError\<close> leaves \<open>fix\<close>.
\<close>

theorem aggressive_fix_throws:
  assumes "yamlLoadAll misplacedName = Inr [misplacedNameValue]"
  shows "YAMLFixer_fix yamlLoadAll yamlDump 2 True misplacedName
         = Inl (TypeError (''Cannot create property '' @ [CHR 0x22] @ ''name'' @ [CHR 0x22]))"
proof -
  have parsed: "phase2_parseValidation yamlLoadAll misplacedName = ([], Some misplacedNameValue)"
    using assms by (simp add: phase2_parseValidation_def)
  obtain entries where entries: "misplacedNameValue = YMap entries"
    by (simp add: misplacedNameValue_def)
  have "phase3b_structuralFixes yamlDump 2 (YMap entries)
      = bindE (fixSingleDocument (YMap entries)) (\<lambda>(doc, explanation).
          Inr (yamlDump 2 doc, orText explanation ''No structural changes needed''))"
    by (simp add: phase3b_structuralFixes_def)
  then have "phase3b_structuralFixes yamlDump 2 misplacedNameValue
      = bindE (fixSingleDocument misplacedNameValue) (\<lambda>(doc, explanation).
          Inr (yamlDump 2 doc, orText explanation ''No structural changes needed''))"
    by (simp only: entries [symmetric])
  then have "phase3b_structuralFixes yamlDump 2 misplacedNameValue
      = Inl (TypeError (''Cannot create property '' @ [CHR 0x22] @ ''name'' @ [CHR 0x22]))"
    by (simp add: fixSingleDocument_misplacedName bindE_def)
  with parsed show ?thesis
    by (simp add: YAMLFixer_fix_def Let_def phase1_misplacedName join_misplacedName bindE_def)
qed

theorem aggressive_fix_throws_witness:
  "loadDocuments [misplacedNameValue] misplacedName = Inr [misplacedNameValue]
   \<and> YAMLFixer_fix (loadDocuments [misplacedNameValue]) dumpNothing 2 True misplacedName
       = Inl (TypeError (''Cannot create property '' @ [CHR 0x22] @ ''name'' @ [CHR 0x22]))"
  using aggressive_fix_throws [of "loadDocuments [misplacedNameValue]" dumpNothing]
  by (simp add: loadDocuments_def)

subsection \<open>Block scalars\<close>

lemma finish_flag:
  "p1_inBlockScalar (case d of
       Separator \<Rightarrow> st3\<lparr>seenKeys := [], lastIndent := 0, normalizedLines := n\<rparr>
     | Duplicate key seen \<Rightarrow> st3\<lparr>seenKeys := seen, changes := c key\<rparr>
     | Kept seen lastInd \<Rightarrow> st3\<lparr>seenKeys := seen, lastIndent := lastInd, normalizedLines := n\<rparr>)
   = p1_inBlockScalar st3"
  by (cases d) simp_all

lemma phase1Step_flag:
  "p1_inBlockScalar (phase1Step indentSz lines i st) =
     (if opensSpan (lines ! i) then True
      else if p1_inBlockScalar st \<and> trim (lines ! i) \<noteq> [] \<and> \<not> startsWith (lines ! i) '' ''
        then False
      else p1_inBlockScalar st)"
proof -
  have "p1_inBlockScalar (phase1Step indentSz lines i st) =
     (if endsWith (trim (lines ! i)) ''|'' \<or> endsWith (trim (lines ! i)) ''>'' then True
      else if p1_inBlockScalar st \<and> trim (lines ! i) \<noteq> [] \<and> \<not> startsWith (lines ! i) '' ''
        then False
      else p1_inBlockScalar st)"
    unfolding phase1Step_def Let_def if_distrib [of p1_inBlockScalar] finish_flag
    by simp
  then show ?thesis by (simp only: opensSpan_def)
qed

lemma if_else_again: "(if c then a else b) = (if c then a else (if c then a else b))"
  by simp

lemma phase1Step_verbatim:
  assumes "p1_inBlockScalar (phase1Step indentSz lines i st)" and "0 < i"
  shows "normalizedLines (phase1Step indentSz lines i st) = normalizedLines st @ [lines ! i]
    \<and> changes (phase1Step indentSz lines i st) = changes st"
proof -
  define inBlock where "inBlock \<longleftrightarrow>
     (if endsWith (trim (lines ! i)) ''|'' \<or> endsWith (trim (lines ! i)) ''>'' then True
      else if p1_inBlockScalar st \<and> trim (lines ! i) \<noteq> [] \<and> \<not> startsWith (lines ! i) '' ''
        then False
      else p1_inBlockScalar st)"
  have flag: inBlock
    using assms(1) by (simp only: phase1Step_flag opensSpan_def inBlock_def)
  have step: "phase1Step indentSz lines i st =
      (if inBlock \<and> i > 0
       then st\<lparr>p1_inBlockScalar := inBlock,
               normalizedLines := normalizedLines (st\<lparr>p1_inBlockScalar := inBlock\<rparr>) @ [lines ! i]\<rparr>
       else phase1Step indentSz lines i st)"
    unfolding phase1Step_def Let_def inBlock_def by (rule if_else_again)
  from flag assms(2) step
  have "phase1Step indentSz lines i st =
      st\<lparr>p1_inBlockScalar := inBlock,
         normalizedLines := normalizedLines (st\<lparr>p1_inBlockScalar := inBlock\<rparr>) @ [lines ! i]\<rparr>"
    by simp
  then show ?thesis by simp
qed

lemma phase1Before_Suc:
  "phase1Before indentSz lines (Suc j) = phase1Step indentSz lines j (phase1Before indentSz lines j)"
  by (simp add: phase1Before_def)

lemma not_closing_starts_with_blank:
  assumes "\<not> closesSpan opener line"
  shows "trim line = [] \<or> startsWith line '' ''"
proof (cases "trim line = []")
  case True
  then show ?thesis by simp
next
  case False
  with assms have "0 < leadingBlanks line" by (simp add: closesSpan_def)
  then show ?thesis
    by (cases line) (auto simp: leadingBlanks_def startsWith_def split: if_splits)
qed

lemma flag_stays_in_span:
  assumes "opensSpan (lines ! k)"
    and "\<forall>m. k < m \<and> m \<le> j \<longrightarrow> \<not> closesSpan (lines ! k) (lines ! m)"
    and "k \<le> j"
  shows "p1_inBlockScalar (phase1Before indentSz lines (Suc j))"
  using assms(3,2)
proof (induction j)
  case 0
  with assms(1) show ?case by (simp add: phase1Before_Suc phase1Step_flag)
next
  case (Suc j)
  show ?case
  proof (cases "k = Suc j")
    case True
    with assms(1) show ?thesis by (simp add: phase1Before_Suc [of _ _ "Suc j"] phase1Step_flag)
  next
    case False
    with Suc.prems have "k \<le> j" by simp
    moreover have "\<forall>m. k < m \<and> m \<le> j \<longrightarrow> \<not> closesSpan (lines ! k) (lines ! m)"
      using Suc.prems(2) by simp
    ultimately have before: "p1_inBlockScalar (phase1Before indentSz lines (Suc j))"
      by (rule Suc.IH)
    have "\<not> closesSpan (lines ! k) (lines ! Suc j)"
      using Suc.prems(2) \<open>k \<le> j\<close> by simp
    then have "trim (lines ! Suc j) = [] \<or> startsWith (lines ! Suc j) '' ''"
      by (rule not_closing_starts_with_blank)
    with before show ?thesis
      by (auto simp: phase1Before_Suc [of _ _ "Suc j"] phase1Step_flag)
  qed
qed


text \<open>
  Phase 1 of the three-phase fixer keeps the lines of a block-scalar span (indents counted
  in blanks): the step for a line inside a span appends the line as it is to the output
  and records no change.
\<close>

lemma phase1_block_scalar_verbatim:
  assumes "inSpan lines j"
  shows "normalizedLines (phase1Step indentSz lines j (phase1Before indentSz lines j))
           = normalizedLines (phase1Before indentSz lines j) @ [lines ! j]
    \<and> changes (phase1Step indentSz lines j (phase1Before indentSz lines j))
           = changes (phase1Before indentSz lines j)"
proof -
  from assms obtain k where k: "k < j" "opensSpan (lines ! k)"
    "\<forall>m. k < m \<and> m \<le> j \<longrightarrow> \<not> closesSpan (lines ! k) (lines ! m)"
    by (auto simp: inSpan_def)
  then have "p1_inBlockScalar (phase1Before indentSz lines (Suc j))"
    using flag_stays_in_span [of lines k j indentSz] by simp
  then have "p1_inBlockScalar (phase1Step indentSz lines j (phase1Before indentSz lines j))"
    by (simp add: phase1Before_Suc)
  moreover have "0 < j" using k(1) by simp
  ultimately show ?thesis by (rule phase1Step_verbatim)
qed

lemma phase1_block_scalar_sample:
  "inSpan (splitLines blockScalarText) 1
   \<and> phase1_syntaxNormalization 2 blockScalarText = ([''data: |'', ''  name nginx''], [])"
  by code_simp

text \<open>
  Claim C2 fails on the code of the iterative fixer.  In \<open>blockScalarText\<close> the first
  line ends in the literal indicator and the second line is indented deeper, so the
  second line lies inside the span.  The line classifier of the context analyzer knows a
  block scalar only when the trimmed line is the bare indicator, so the opener is taken
  for a key with a value and the line of the span for an orphaned value; the missing-colon
  pass then rewrites the line of the span.
\<close>

theorem block_scalar_line_rewritten:
  "splitLines blockScalarText = [''data: |'', ''  name nginx'']
   \<and> endsWith (trim ''data: |'') ''|''
   \<and> getIndent ''data: |'' < getIndent ''  name nginx''
   \<and> map sl_type (sp_lines (parse blockScalarText)) = [key_value, value_only]
   \<and> splitLines (vr_fixedYaml (IntelligentYAMLFixer_fix acceptAll noTypeFixes (newFixer noOptions) blockScalarText))
        = [''data: |'', ''  name: nginx'']
   \<and> map lineNumber (vr_fixes (IntelligentYAMLFixer_fix acceptAll noTypeFixes (newFixer noOptions) blockScalarText)) = [2]
   \<and> map fixType (vr_fixes (IntelligentYAMLFixer_fix acceptAll noTypeFixes (newFixer noOptions) blockScalarText))
        = [missing_colon]"
  by code_simp

subsection \<open>Duplicate keys\<close>

lemma duplicate_key_removed:
  "phase1_syntaxNormalization 2 (''name: a'' @ [NL] @ ''name: b'') = ([''name: a''],
     [\<lparr>fc_type = DUPLICATE, fc_line = 2, fc_original = ''name: b'', fc_fixed = [],
       fc_reason = ''Removed duplicate key '' @ [CHR 0x22] @ ''name'' @ [CHR 0x22],
       fc_severity = error\<rparr>])"
  by code_simp

lemma list_item_key_dropped:
  "fst (phase1_syntaxNormalization 2 (''- name: a'' @ [NL] @ ''-name: b'')) = [''- name: a'']"
  by code_simp

text \<open>
  Claim C7 fails on the code.  In \<open>afterBlockScalar\<close> the two last lines carry the key
  \<open>name\<close> at the same column under the same parent, with no dedent between them, and
  phase 1 keeps both and records no change: the block scalar opened by \<open>script: |\<close> is
  left only at a line that does not start with a blank, so the lines after it are still
  copied as they are and never reach the duplicate check.
\<close>

theorem duplicate_after_block_scalar_kept:
  "splitLines afterBlockScalar = [''spec:'', ''  script: |'', ''    echo'', ''  name: a'', ''  name: b'']
   \<and> matchKeyExtract ''  name: a'' = Some ''name''
   \<and> matchKeyExtract ''  name: b'' = Some ''name''
   \<and> indexOf ''  name: a'' ''name'' = indexOf ''  name: b'' ''name''
   \<and> getIndent ''  name: a'' = getIndent ''  script: |''
   \<and> phase1_syntaxNormalization 2 afterBlockScalar
        = ([''spec:'', ''  script: |'', ''    echo'', ''  name: a'', ''  name: b''], [])"
  by code_simp

subsection \<open>Flat mappings\<close>







lemma startsWith_append: "startsWith (p @ s) p"
  by (simp add: startsWith_def)























































































end
